theory Spec2Isabelle
  imports Main
begin

section \<open>JavaScript values and objects\<close>

text \<open>
  The values that travel through the options bag of \<^verbatim>\<open>deployment-util.js\<close>:
  \<^verbatim>\<open>undefined\<close>, \<^verbatim>\<open>null\<close>, booleans, (integral) numbers, strings, on-chain addresses
  (non-empty hexadecimal strings in the source, kept apart from ordinary strings here),
  contract artifacts (objects carrying a \<^verbatim>\<open>contractName\<close>, as line 151 of the source
  reads it) and any other object. A property that an object does not have reads as
  \<^verbatim>\<open>undefined\<close>, so a bag is a total function into these values.
  Objects are modelled by their own properties: names inherited from
  \<^verbatim>\<open>Object.prototype\<close> are outside the model.
\<close>

datatype jsval =
    Undefined
  | Null
  | Bool bool
  | Num int
  | Str string
  | Addr nat
  | Contract string
  | Obj

text \<open>The conversion to boolean that \<^verbatim>\<open>!x\<close>, \<^verbatim>\<open>x ? a : b\<close> and \<^verbatim>\<open>x || y\<close> apply.\<close>

fun truthy :: "jsval \<Rightarrow> bool" where
  "truthy Undefined = False"
| "truthy Null = False"
| "truthy (Bool b) = b"
| "truthy (Num n) = (n \<noteq> 0)"
| "truthy (Str s) = (s \<noteq> [])"
| "truthy (Addr a) = True"
| "truthy (Contract n) = True"
| "truthy Obj = True"

text \<open>
  The own properties of an object, in creation order. Creating or setting an own property
  (\<open>put\<close>) replaces the value of an existing property in place and appends a new one.
\<close>

type_synonym 'a obj = "(string \<times> 'a) list"

fun put :: "string \<Rightarrow> 'a \<Rightarrow> 'a obj \<Rightarrow> 'a obj" where
  "put k v [] = [(k, v)]"
| "put k v (p # ps) = (if fst p = k then (k, v) # ps else p # put k v ps)"

text \<open>
  An object that the source creates as \<^verbatim>\<open>{}\<close> and fills in as a dictionary
  (\<^verbatim>\<open>factories\<close>, \<^verbatim>\<open>extensions\<close>, \<^verbatim>\<open>adapters\<close>, ...): its own properties, and the
  object that an assignment has made its prototype, if any. The assignment
  \<^verbatim>\<open>obj[k] = v\<close> sets the own property \<open>k\<close>, except for the key \<^verbatim>\<open>__proto__\<close>: that one
  is the accessor of \<^verbatim>\<open>Object.prototype\<close>, whose setter makes \<open>v\<close> (an object, in every
  assignment of the source) the prototype of \<open>obj\<close> and creates no own property.
\<close>

record 'a dictionary =
  own :: "'a obj"
  prototype :: "'a option"

definition new_object :: "'a dictionary" where
  "new_object = \<lparr>own = [], prototype = None\<rparr>"

definition assign :: "string \<Rightarrow> 'a \<Rightarrow> 'a dictionary \<Rightarrow> 'a dictionary" where
  "assign k v d =
     (if k = ''__proto__'' then d\<lparr>prototype := Some v\<rparr> else d\<lparr>own := put k v (own d)\<rparr>)"

text \<open>
  \<^verbatim>\<open>Object.values\<close> and \<^verbatim>\<open>Object.keys\<close> enumerate array-index keys first (canonical
  decimal numerals below \<open>2\<^sup>3\<^sup>2 - 1\<close>, in ascending numeric order) and every other key
  in creation order.
\<close>

definition digits :: "(char \<times> nat) list" where
  "digits = [(CHR ''0'', 0), (CHR ''1'', 1), (CHR ''2'', 2), (CHR ''3'', 3), (CHR ''4'', 4),
             (CHR ''5'', 5), (CHR ''6'', 6), (CHR ''7'', 7), (CHR ''8'', 8), (CHR ''9'', 9)]"

fun decimal :: "string \<Rightarrow> nat \<Rightarrow> nat option" where
  "decimal [] n = Some n"
| "decimal (c # cs) n =
     (case map_of digits c of None \<Rightarrow> None | Some d \<Rightarrow> decimal cs (10 * n + d))"

definition array_index :: "string \<Rightarrow> nat option" where
  "array_index k =
     (case k of
        [] \<Rightarrow> None
      | c # cs \<Rightarrow>
          if c = CHR ''0'' \<and> cs \<noteq> [] then None
          else (case decimal k 0 of
                  None \<Rightarrow> None
                | Some n \<Rightarrow> if n < 4294967295 then Some n else None))"

definition index_rank :: "string \<times> 'a \<Rightarrow> nat" where
  "index_rank p = (case array_index (fst p) of None \<Rightarrow> 0 | Some n \<Rightarrow> n)"

definition own_properties :: "'a obj \<Rightarrow> (string \<times> 'a) list" where
  "own_properties m =
     sort_key index_rank (filter (\<lambda>p. array_index (fst p) \<noteq> None) m)
     @ filter (\<lambda>p. array_index (fst p) = None) m"

definition Object_values :: "'a obj \<Rightarrow> 'a list" where
  "Object_values m = map snd (own_properties m)"

definition Object_keys :: "'a obj \<Rightarrow> string list" where
  "Object_keys m = map fst (own_properties m)"

text \<open>
  Reading a property of a dictionary by name: the own property, or nothing
  (\<^verbatim>\<open>undefined\<close>). A prototype set by assignment is a handle, whose properties are
  \<^verbatim>\<open>configs\<close>, \<^verbatim>\<open>address\<close> and the members of the contract instance; the one name
  that the source reads this way, \<^verbatim>\<open>bankExt\<close>, is taken not to be among them.
\<close>

definition property :: "'a dictionary \<Rightarrow> string \<Rightarrow> 'a option" where
  "property d k = map_of (own d) k"

section \<open>Contract descriptors\<close>

text \<open>
  Modelled from the spec: \<^verbatim>\<open>ContractType\<close> is imported from
  \<^verbatim>\<open>migrations/configs/contracts.config\<close>, which is not part of the sources at hand. The
  categories are those of the spec's data model; \<open>Core\<close> stands for every other one.
\<close>

datatype ContractType = Core | Factory | Extension | Adapter | Util | Test

text \<open>
  A descriptor of the configuration table. Fields that the code tests for presence
  (\<^verbatim>\<open>deploymentArgs\<close>, \<^verbatim>\<open>daoConfigs\<close>, \<^verbatim>\<open>acls.dao\<close>, \<^verbatim>\<open>generatesExtensionId\<close>) are
  optional; \<^verbatim>\<open>enabled\<close> and \<^verbatim>\<open>skipAutoDeploy\<close> hold the truth value the code sees;
  \<^verbatim>\<open>alias\<close> is the property key the alias yields; \<^verbatim>\<open>buildAclFlag\<close> says whether the
  descriptor carries the flag-encoding function that \<^verbatim>\<open>configureExtensionAccess\<close> calls.
\<close>

record selected_acls =
  acls_dao :: "string list option"
  acls_extensions :: "string list obj"

record config =
  config_id :: string
  config_name :: string
  config_alias :: string
  config_type :: ContractType
  enabled :: bool
  skipAutoDeploy :: bool
  deploymentArgs :: "string list option"
  generatesExtensionId :: "string option"
  acls :: selected_acls
  daoConfigs :: "string list list option"
  buildAclFlag :: bool

text \<open>
  A contract instance as the deploy primitive or \<^verbatim>\<open>embedConfigs\<close> returns it: the
  descriptor attached to it, if any, and its address. An instance enters one of the
  dictionaries of deployed contracts under \<^verbatim>\<open>instance.configs.alias\<close>, which throws
  when there is no descriptor; so the entries of those dictionaries are handles, which
  always carry one.
\<close>

record contract_instance =
  instance_configs :: "config option"
  instance_address :: nat

record handle =
  configs :: config
  address :: nat

text \<open>The options bag: the properties read by name, and the descriptor table.\<close>

record options =
  bag :: "string \<Rightarrow> jsval"
  contractConfigs :: "config list"

section \<open>The chain\<close>

text \<open>
  Modelled from the spec: \<^verbatim>\<open>sha3\<close>, \<^verbatim>\<open>entryDao\<close>, \<^verbatim>\<open>entryBank\<close> and the descriptors'
  \<^verbatim>\<open>buildAclFlag\<close> come from modules that are not part of the sources at hand. They
  build values that this layer passes on opaquely, so each is kept as a constructor of
  its arguments.
\<close>

datatype hash = sha3 string

datatype dao_entry = entryDao string nat selected_acls

datatype bank_flags = entryBank_flags nat selected_acls

datatype acl_flag = AclFlag string nat selected_acls

text \<open>
  Every call this layer issues to the chain client, with its arguments in source order;
  the first \<open>nat\<close> of a method call is the address of the receiving contract and the last
  \<open>jsval\<close> of a transaction is its sender (\<^verbatim>\<open>{ from: owner }\<close>).
\<close>

datatype call =
    Deploy string "jsval list option" "jsval option"
  | Contract_at string nat
  | DaoFactory_createDao nat jsval jsval jsval
  | DaoFactory_getDaoAddress nat jsval
  | DaoFactory_addAdapters nat nat "dao_entry list" jsval
  | DaoFactory_configureExtension nat nat nat "acl_flag list" jsval
  | DaoFactory_updateAdapter nat nat dao_entry jsval
  | Factory_create nat "jsval list"
  | Factory_getExtensionAddress nat jsval
  | Dao_addExtension nat hash nat jsval jsval
  | Dao_getAdapterAddress nat hash
  | Dao_setAclToExtensionForAdapter nat nat nat bank_flags jsval
  | Dao_finalizeDao nat jsval
  | Adapter_configureDao nat "jsval list" jsval

datatype outcome = Done | Rejected

text \<open>
  The errors of the source, one constructor per message; \<open>TypeError\<close> is what the
  runtime raises when a property of \<^verbatim>\<open>undefined\<close> is read or a non-function is called,
  \<open>ChainCallError\<close> the rejection of a call by the chain client.
\<close>

datatype error =
    ContractNotFound string
  | MissingDeploymentArgument string string
  | MissingFactoryContract string
  | MissingExtensionConfig "string option"
  | MissingExtensionContract string
  | MissingExtensionConfiguration string
  | MissingCreateArgument string string
  | ExtensionContractNotFound string
  | UnableToEmbedConfigs string
  | DaoParameterError string string
  | TypeError
  | ChainCallError call

text \<open>
  The chain is an arbitrary deterministic environment: whether it rejects a call, and
  the address it answers with, may depend on everything issued before. \<open>calls\<close> records
  every call issued, with its outcome, oldest first.
\<close>

record chain =
  calls :: "(call \<times> outcome) list"
  rejects :: "(call \<times> outcome) list \<Rightarrow> call \<Rightarrow> bool"
  answer :: "(call \<times> outcome) list \<Rightarrow> call \<Rightarrow> nat"

text \<open>
  An asynchronous operation: it runs on the chain and either rejects with an error or
  resolves to a value; in both cases the chain keeps what was done to it.
  \<open>then_io\<close> is \<^verbatim>\<open>await\<close> (or \<^verbatim>\<open>.then\<close>): the continuation runs only after a resolution.
\<close>

type_synonym 'a io = "chain \<Rightarrow> (error + 'a) \<times> chain"

definition resolve :: "'a \<Rightarrow> 'a io" where
  "resolve x w = (Inr x, w)"

definition throw :: "error \<Rightarrow> 'a io" where
  "throw e w = (Inl e, w)"

definition then_io :: "'a io \<Rightarrow> ('a \<Rightarrow> 'b io) \<Rightarrow> 'b io" where
  "then_io m f w = (case m w of (Inl e, w') \<Rightarrow> (Inl e, w') | (Inr x, w') \<Rightarrow> f x w')"

definition lift :: "error + 'a \<Rightarrow> 'a io" where
  "lift r w = (r, w)"

definition chain_call :: "call \<Rightarrow> nat io" where
  "chain_call c w =
     (if rejects w (calls w) c
      then (Inl (ChainCallError c), w\<lparr>calls := calls w @ [(c, Rejected)]\<rparr>)
      else (Inr (answer w (calls w) c), w\<lparr>calls := calls w @ [(c, Done)]\<rparr>))"

text \<open>\<^verbatim>\<open>Array.prototype.map\<close> with a callback that may throw: the first throw wins.\<close>

fun map_throw :: "('a \<Rightarrow> error + 'b) \<Rightarrow> 'a list \<Rightarrow> error + 'b list" where
  "map_throw f [] = Inr []"
| "map_throw f (x # xs) =
     (case f x of
        Inl e \<Rightarrow> Inl e
      | Inr y \<Rightarrow> (case map_throw f xs of Inl e \<Rightarrow> Inl e | Inr ys \<Rightarrow> Inr (y # ys)))"

text \<open>
  Modelled from the spec: \<^verbatim>\<open>embedConfigs\<close> is imported from \<^verbatim>\<open>contract-util.js\<close>,
  which is not part of the sources at hand. It tags a contract instance with its
  originating descriptor: the descriptor of the table registered under the contract's
  name, if there is one.
\<close>

definition embedConfigs :: "nat \<Rightarrow> string \<Rightarrow> config list \<Rightarrow> contract_instance" where
  "embedConfigs at_address nm cfgs =
     \<lparr>instance_configs = find (\<lambda>c. config_name c = nm) cfgs, instance_address = at_address\<rparr>"

text \<open>
  Modelled from the spec: the deploy primitive \<^verbatim>\<open>options.deployFunction\<close> is supplied by
  the caller. It takes a contract artifact, the constructor arguments and the sender,
  issues one deployment to the chain and resolves to the handle of the new instance,
  tagged with its descriptor; it rejects when the chain does. Given anything but an
  artifact it throws without reaching the chain.
\<close>

definition deployFunction ::
  "options \<Rightarrow> jsval \<Rightarrow> jsval list option \<Rightarrow> jsval option \<Rightarrow> contract_instance io" where
  "deployFunction opts contract args sender =
     (case contract of
        Contract nm \<Rightarrow>
          then_io (chain_call (Deploy nm args sender))
            (\<lambda>at_address. resolve (embedConfigs at_address nm (contractConfigs opts)))
      | _ \<Rightarrow> throw TypeError)"

section \<open>The contract deployer\<close>

text \<open>Lines 37 to 53: \<^verbatim>\<open>deployContract\<close>.\<close>

definition deployContract :: "config \<Rightarrow> options \<Rightarrow> contract_instance io" where
  "deployContract cfg opts =
     (let contract = bag opts (config_name cfg) in
      if \<not> truthy contract then throw (ContractNotFound (config_name cfg))
      else
        (case deploymentArgs cfg of
           Some (a # as) \<Rightarrow>
             (case map_throw
                     (\<lambda>argName.
                        let arg = bag opts argName in
                        if arg \<noteq> Null \<and> arg \<noteq> Undefined then Inr arg
                        else Inl (MissingDeploymentArgument argName (config_name cfg)))
                     (a # as) of
                Inl e \<Rightarrow> throw e
              | Inr args \<Rightarrow> deployFunction opts contract (Some args) None)
         | _ \<Rightarrow> deployFunction opts contract None None))"

section \<open>The network registry\<close>

text \<open>Lines 643 to 684: the table \<^verbatim>\<open>networks\<close> and \<^verbatim>\<open>getNetworkDetails\<close>.\<close>

record network =
  name :: string
  chainId :: nat

definition networks :: "network list" where
  "networks =
     [\<lparr>name = ''ganache'', chainId = 1337\<rparr>,
      \<lparr>name = ''rinkeby'', chainId = 4\<rparr>,
      \<lparr>name = ''rinkeby-fork'', chainId = 4\<rparr>,
      \<lparr>name = ''goerli'', chainId = 5\<rparr>,
      \<lparr>name = ''test'', chainId = 1\<rparr>,
      \<lparr>name = ''coverage'', chainId = 1\<rparr>,
      \<lparr>name = ''mainnet'', chainId = 1\<rparr>,
      \<lparr>name = ''harmony'', chainId = 1666600000\<rparr>,
      \<lparr>name = ''harmonytest'', chainId = 1666700000\<rparr>]"

definition getNetworkDetails :: "string \<Rightarrow> network option" where
  "getNetworkDetails n = find (\<lambda>e. name e = n) networks"

section \<open>Sequential folds over promise chains\<close>

text \<open>
  Every phase has the shape
  \<^verbatim>\<open>list.reduce((p, x) => p.then(() => body(x)), Promise.resolve())\<close>:
  the bodies run one after the other, and the first rejection skips the rest. The state
  threaded through is the dictionary that the bodies fill in (or nothing).
  A handler \<^verbatim>\<open>.catch((e) => { console.error(...); throw e; })\<close> logs and rethrows the same
  error; logging is not modelled, so such a handler leaves no trace here.
\<close>

fun reduce_then :: "('a \<Rightarrow> 's \<Rightarrow> 's io) \<Rightarrow> 'a list \<Rightarrow> 's \<Rightarrow> 's io" where
  "reduce_then body [] s w = (Inr s, w)"
| "reduce_then body (x # xs) s w =
     (case body x s w of
        (Inl e, w') \<Rightarrow> (Inl e, w')
      | (Inr s', w') \<Rightarrow> reduce_then body xs s' w')"

text \<open>Reading \<^verbatim>\<open>instance.configs.f\<close> throws when the instance has no descriptor.\<close>

definition with_configs :: "contract_instance \<Rightarrow> handle io" where
  "with_configs i =
     (case instance_configs i of
        None \<Rightarrow> throw TypeError
      | Some c \<Rightarrow> resolve \<lparr>configs = c, address = instance_address i\<rparr>)"

definition as_instance :: "handle \<Rightarrow> contract_instance" where
  "as_instance h = \<lparr>instance_configs = Some (configs h), instance_address = address h\<rparr>"

text \<open>\<^verbatim>\<open>.then((x) => { dictionary[x.configs.alias] = x; })\<close>\<close>

definition register ::
  "contract_instance \<Rightarrow> handle dictionary \<Rightarrow> handle dictionary io" where
  "register i dictionary =
     then_io (with_configs i) (\<lambda>h. resolve (assign (config_alias (configs h)) h dictionary))"

section \<open>The phase orchestrator\<close>

text \<open>Lines 62 to 100: \<^verbatim>\<open>createFactories\<close>; first the body of its first \<^verbatim>\<open>.then\<close>.\<close>

definition createFactories_deploy :: "options \<Rightarrow> config \<Rightarrow> contract_instance io" where
  "createFactories_deploy opts cfg =
     (let factoryContract = bag opts (config_name cfg) in
      if \<not> truthy factoryContract then throw (MissingFactoryContract (config_name cfg))
      else
        (case find (\<lambda>c. Some (config_id c) = generatesExtensionId cfg) (contractConfigs opts) of
           None \<Rightarrow> throw (MissingExtensionConfig (generatesExtensionId cfg))
         | Some extensionConfig \<Rightarrow>
             (let extensionContract = bag opts (config_name extensionConfig) in
              if \<not> truthy extensionContract
              then throw (MissingExtensionContract (config_name extensionConfig))
              else deployFunction opts factoryContract (Some [extensionContract]) None)))"

text \<open>
  The \<^verbatim>\<open>reduce\<close> of \<^verbatim>\<open>createFactories\<close> from a given point: the descriptors still to
  go and the dictionary \<^verbatim>\<open>factories\<close> filled so far.
\<close>

definition createFactories_from ::
  "options \<Rightarrow> config list \<Rightarrow> handle dictionary \<Rightarrow> handle dictionary io" where
  "createFactories_from opts cfgs factories =
     reduce_then
       (\<lambda>cfg factories.
          then_io (createFactories_deploy opts cfg) (\<lambda>factory. register factory factories))
       cfgs factories"

definition createFactories :: "options \<Rightarrow> handle dictionary io" where
  "createFactories opts =
     createFactories_from opts
       (filter (\<lambda>cfg. \<not> skipAutoDeploy cfg)
          (filter (\<lambda>cfg. enabled cfg)
             (filter (\<lambda>cfg. config_type cfg = Factory) (contractConfigs opts))))
       new_object"

text \<open>
  Lines 111 to 195: \<^verbatim>\<open>createExtensions\<close> and its inner \<^verbatim>\<open>createExtension\<close>.
  \<^verbatim>\<open>extensionContract.at\<close> exists on artifacts only; the instance it resolves to is bound
  to the address asked for.
\<close>

definition createExtension ::
  "contract_instance \<Rightarrow> handle \<Rightarrow> options \<Rightarrow> handle io" where
  "createExtension dao factory opts =
     (let factoryConfigs = configs factory in
      case find (\<lambda>c. Some (config_id c) = generatesExtensionId factoryConfigs)
             (contractConfigs opts) of
        None \<Rightarrow> throw (MissingExtensionConfiguration (config_name factoryConfigs))
      | Some extensionConfigs \<Rightarrow>
          then_io
            (case deploymentArgs factoryConfigs of
               Some (a # as) \<Rightarrow>
                 (case map_throw
                         (\<lambda>argName.
                            let arg = bag opts argName in
                            if arg \<noteq> Null \<and> arg \<noteq> Undefined then Inr arg
                            else Inl (MissingCreateArgument argName (config_name factoryConfigs)))
                         (a # as) of
                    Inl e \<Rightarrow> throw e
                  | Inr args \<Rightarrow> chain_call (Factory_create (address factory) args))
             | _ \<Rightarrow> chain_call (Factory_create (address factory) []))
            (\<lambda>_.
               then_io
                 (chain_call (Factory_getExtensionAddress (address factory) (bag opts ''daoAddress'')))
                 (\<lambda>extensionAddress.
                    let extensionContract = bag opts (config_name extensionConfigs) in
                    if \<not> truthy extensionContract
                    then throw (ExtensionContractNotFound (config_name extensionConfigs))
                    else
                      (case extensionContract of
                         Contract contractName \<Rightarrow>
                           then_io (chain_call (Contract_at contractName extensionAddress))
                             (\<lambda>_.
                                let newExtension =
                                      embedConfigs extensionAddress contractName (contractConfigs opts)
                                in
                                case instance_configs newExtension of
                                  None \<Rightarrow> throw (UnableToEmbedConfigs (config_name extensionConfigs))
                                | Some newConfigs \<Rightarrow>
                                    then_io
                                      (chain_call
                                         (Dao_addExtension (instance_address dao)
                                            (sha3 (config_id newConfigs))
                                            (instance_address newExtension)
                                            (bag opts ''owner'') (bag opts ''owner'')))
                                      (\<lambda>_. resolve
                                              \<lparr>configs = newConfigs,
                                               address = instance_address newExtension\<rparr>))
                       | _ \<Rightarrow> throw TypeError))))"

definition createExtensions ::
  "contract_instance \<Rightarrow> handle dictionary \<Rightarrow> options \<Rightarrow> handle dictionary io" where
  "createExtensions dao factories opts =
     reduce_then
       (\<lambda>factory extensions.
          then_io (createExtension dao factory opts)
            (\<lambda>extension.
               resolve (assign (config_alias (configs extension)) extension extensions)))
       (Object_values (own factories))
       new_object"

text \<open>Lines 204 to 225: \<^verbatim>\<open>createAdapters\<close>.\<close>

definition createAdapters :: "options \<Rightarrow> handle dictionary io" where
  "createAdapters opts =
     reduce_then
       (\<lambda>cfg adapters.
          then_io (deployContract cfg opts) (\<lambda>adapter. register adapter adapters))
       (filter (\<lambda>cfg. \<not> skipAutoDeploy cfg)
          (filter (\<lambda>cfg. enabled cfg)
             (filter (\<lambda>cfg. config_type cfg = Adapter) (contractConfigs opts))))
       new_object"

text \<open>Lines 504 to 528: \<^verbatim>\<open>createUtilContracts\<close>.\<close>

definition createUtilContracts :: "options \<Rightarrow> handle dictionary io" where
  "createUtilContracts opts =
     reduce_then
       (\<lambda>cfg utilContracts.
          then_io (deployContract cfg opts)
            (\<lambda>utilContract. register utilContract utilContracts))
       (filter (\<lambda>cfg. \<not> skipAutoDeploy cfg)
          (filter (\<lambda>cfg. enabled cfg)
             (filter (\<lambda>cfg. config_type cfg = Util) (contractConfigs opts))))
       new_object"

text \<open>Lines 530 to 556: \<^verbatim>\<open>createTestContracts\<close>.\<close>

definition createTestContracts :: "options \<Rightarrow> handle dictionary io" where
  "createTestContracts opts =
     (if \<not> truthy (bag opts ''deployTestTokens'') then resolve new_object
      else
        reduce_then
          (\<lambda>cfg testContracts.
             then_io (deployContract cfg opts)
               (\<lambda>testContract. register testContract testContracts))
          (filter (\<lambda>cfg. \<not> skipAutoDeploy cfg)
             (filter (\<lambda>cfg. enabled cfg)
                (filter (\<lambda>cfg. config_type cfg = Test) (contractConfigs opts))))
          new_object)"

text \<open>
  Lines 306 to 321: \<^verbatim>\<open>cloneDao\<close>. Its parameters are read from the bag it is given;
  the DAO it returns is bound by \<^verbatim>\<open>DaoRegistry.at\<close> and carries no descriptor.
\<close>

definition cloneDao ::
  "options \<Rightarrow> (contract_instance \<times> contract_instance \<times> jsval) io" where
  "cloneDao opts =
     (let owner = bag opts ''owner'';
          creator = bag opts ''creator'';
          DaoRegistry = bag opts ''DaoRegistry'';
          DaoFactory = bag opts ''DaoFactory'';
          daoName = bag opts ''name''
      in
      then_io (deployFunction opts DaoFactory (Some [DaoRegistry]) (Some owner))
        (\<lambda>daoFactory.
           then_io
             (chain_call
                (DaoFactory_createDao (instance_address daoFactory) daoName
                   (if truthy creator then creator else owner) owner))
             (\<lambda>_.
                then_io
                  (chain_call (DaoFactory_getDaoAddress (instance_address daoFactory) daoName))
                  (\<lambda>dao_address.
                     case DaoRegistry of
                       Contract contractName \<Rightarrow>
                         then_io (chain_call (Contract_at contractName dao_address))
                           (\<lambda>_. resolve
                                   (\<lparr>instance_configs = None, instance_address = dao_address\<rparr>,
                                    daoFactory, daoName))
                     | _ \<Rightarrow> throw TypeError))))"

section \<open>The access configurator\<close>

text \<open>
  The constants that \<^verbatim>\<open>deployment-util.js\<close> imports from modules that are not part of
  the sources at hand (\<^verbatim>\<open>dao-ids-util\<close>, \<^verbatim>\<open>contract-util.js\<close>) are parameters of the
  model: the dictionary \<^verbatim>\<open>extensionsIdsMap\<close>, the identifier
  \<^verbatim>\<open>adaptersIdsMap.VOTING_ADAPTER\<close>, and the token addresses \<^verbatim>\<open>UNITS\<close> and \<^verbatim>\<open>LOOT\<close>.
\<close>

record imported =
  extensionsIdsMap :: "string obj"
  VOTING_ADAPTER :: string
  UNITS :: jsval
  LOOT :: jsval

text \<open>Lines 331 to 359: \<^verbatim>\<open>configureAdaptersWithDAOAccess\<close>. An array is truthy, even empty.\<close>

definition configureAdaptersWithDAOAccess ::
  "jsval \<Rightarrow> contract_instance \<Rightarrow> contract_instance \<Rightarrow> handle dictionary \<Rightarrow> handle dictionary \<Rightarrow> unit io" where
  "configureAdaptersWithDAOAccess owner dao daoFactory extensions adapters =
     (let adaptersWithAccess =
            map (\<lambda>a. entryDao (config_id (configs a)) (address a) (acls (configs a)))
              (filter (\<lambda>a. acls_dao (acls (configs a)) \<noteq> None)
                 (filter (\<lambda>a. \<not> skipAutoDeploy (configs a))
                    (filter (\<lambda>a. enabled (configs a)) (Object_values (own adapters)))));
          contractsWithAccess =
            adaptersWithAccess @
            map (\<lambda>e. entryDao (config_id (configs e)) (address e) (acls (configs e)))
              (filter (\<lambda>e. length (Object_keys (acls_extensions (acls (configs e)))) > 0)
                 (filter (\<lambda>a. \<not> skipAutoDeploy (configs a))
                    (filter (\<lambda>e. enabled (configs e)) (Object_values (own extensions)))))
      in
      then_io
        (chain_call
           (DaoFactory_addAdapters (instance_address daoFactory) (instance_address dao)
              contractsWithAccess owner))
        (\<lambda>_. resolve ()))"

text \<open>
  Lines 362 to 381: \<^verbatim>\<open>readConfigValue\<close>. The address of a handle is never falsy, so of
  the test \<^verbatim>\<open>!extension || !extension.address\<close> only the first half can hold.
\<close>

definition readConfigValue ::
  "imported \<Rightarrow> handle dictionary \<Rightarrow> options \<Rightarrow> string \<Rightarrow> string \<Rightarrow> error + jsval" where
  "readConfigValue imp extensions opts configName contractName =
     (if configName \<in> set (Object_values (extensionsIdsMap imp)) then
        (case find (\<lambda>e. config_id (configs e) = configName) (Object_values (own extensions)) of
           None \<Rightarrow> Inl (DaoParameterError configName contractName)
         | Some extension \<Rightarrow> Inr (Addr (address extension)))
      else
        (let configValue = bag opts configName in
         if \<not> truthy configValue then Inl (DaoParameterError configName contractName)
         else Inr configValue))"

text \<open>Lines 361 to 417: \<^verbatim>\<open>configureAdaptersWithDAOParameters\<close>.\<close>

definition configureAdaptersWithDAOParameters ::
  "imported \<Rightarrow> handle dictionary \<Rightarrow> handle dictionary \<Rightarrow> options \<Rightarrow> unit io" where
  "configureAdaptersWithDAOParameters imp extensions adapters opts =
     reduce_then
       (\<lambda>adapter _.
          let contractConfigs = configs adapter in
          reduce_then
            (\<lambda>configEntry _.
               case map_throw
                      (\<lambda>configName.
                         readConfigValue imp extensions opts configName
                           (config_name contractConfigs))
                      configEntry of
                 Inl e \<Rightarrow> throw e
               | Inr configValues \<Rightarrow>
                   then_io
                     (chain_call
                        (Adapter_configureDao (address adapter) configValues (bag opts ''owner'')))
                     (\<lambda>_. resolve ()))
            (case daoConfigs contractConfigs of None \<Rightarrow> [] | Some groups \<Rightarrow> groups)
            ())
       (filter (\<lambda>a. case daoConfigs (configs a) of None \<Rightarrow> False | Some groups \<Rightarrow> length groups > 0)
          (filter (\<lambda>a. \<not> skipAutoDeploy (configs a))
             (filter (\<lambda>a. enabled (configs a)) (Object_values (own adapters)))))
       ()"

text \<open>
  Lines 419 to 435: \<^verbatim>\<open>configureExtensionAccess\<close>. The flag of each contract is built by
  the function \<^verbatim>\<open>buildAclFlag\<close> of the target extension's descriptor; calling it throws
  when the descriptor has none.
\<close>

definition configureExtensionAccess ::
  "jsval \<Rightarrow> contract_instance \<Rightarrow> contract_instance \<Rightarrow> handle list \<Rightarrow> handle \<Rightarrow> unit io" where
  "configureExtensionAccess owner dao daoFactory contracts extension =
     (if contracts \<noteq> [] \<and> \<not> buildAclFlag (configs extension) then throw TypeError
      else
        (let withAccess =
               map (\<lambda>c. AclFlag (config_id (configs extension)) (address c) (acls (configs c)))
                 contracts
         in
         if length withAccess > 0 then
           then_io
             (chain_call
                (DaoFactory_configureExtension (instance_address daoFactory)
                   (instance_address dao) (address extension) withAccess owner))
             (\<lambda>_. resolve ())
         else resolve ()))"

text \<open>
  A handler that computes a new error from the one caught. The handler of line 460
  builds its message from \<^verbatim>\<open>extensions.configs.name\<close>, where \<^verbatim>\<open>extensions\<close> is the
  dictionary of extensions. \<^verbatim>\<open>extensions.configs\<close> is an extension registered under the
  alias \<^verbatim>\<open>configs\<close> or, failing that, the descriptor of a handle that has become the
  prototype of the dictionary; with neither, reading \<^verbatim>\<open>.name\<close> of \<^verbatim>\<open>undefined\<close> throws
  inside the handler and the \<open>TypeError\<close> replaces the error caught.
\<close>

definition catch_io :: "'a io \<Rightarrow> (error \<Rightarrow> error) \<Rightarrow> 'a io" where
  "catch_io m handler w = (case m w of (Inl e, w') \<Rightarrow> (Inl (handler e), w') | (Inr x, w') \<Rightarrow> (Inr x, w'))"

text \<open>Lines 440 to 468: \<^verbatim>\<open>configureAdapters\<close>.\<close>

definition configureAdapters ::
  "imported \<Rightarrow> jsval \<Rightarrow> contract_instance \<Rightarrow> contract_instance \<Rightarrow> handle dictionary \<Rightarrow> handle dictionary \<Rightarrow>
     options \<Rightarrow> unit io" where
  "configureAdapters imp owner dao daoFactory extensions adapters opts =
     then_io (configureAdaptersWithDAOAccess owner dao daoFactory extensions adapters)
       (\<lambda>_.
          then_io (configureAdaptersWithDAOParameters imp extensions adapters opts)
            (\<lambda>_.
               reduce_then
                 (\<lambda>targetExtension _.
                    let contracts =
                          filter
                            (\<lambda>a. \<exists>extId \<in> set (Object_keys (acls_extensions (acls (configs a)))).
                                    extId = config_id (configs targetExtension))
                            (filter (\<lambda>a. \<not> skipAutoDeploy (configs a))
                               (filter (\<lambda>a. enabled (configs a)) (Object_values (own adapters))))
                    in
                    catch_io (configureExtensionAccess owner dao daoFactory contracts targetExtension)
                      (\<lambda>e. if property extensions ''configs'' = None \<and> prototype extensions = None
                          then TypeError else e))
                 (filter (\<lambda>targetExtension. \<not> skipAutoDeploy (configs targetExtension))
                    (filter (\<lambda>targetExtension. enabled (configs targetExtension))
                       (Object_values (own extensions))))
                 ()))"

text \<open>Lines 474 to 498: \<^verbatim>\<open>configureExtensions\<close>.\<close>

definition configureExtensions ::
  "jsval \<Rightarrow> contract_instance \<Rightarrow> contract_instance \<Rightarrow> handle dictionary \<Rightarrow> unit io" where
  "configureExtensions owner dao daoFactory extensions =
     reduce_then
       (\<lambda>targetExtension _.
          let contracts =
                filter
                  (\<lambda>e. \<exists>extId \<in> set (Object_keys (acls_extensions (acls (configs e)))).
                          extId = config_id (configs targetExtension))
                  (filter (\<lambda>e. config_id (configs e) \<noteq> config_id (configs targetExtension))
                     (filter (\<lambda>e. enabled (configs e)) (Object_values (own extensions))))
          in
          configureExtensionAccess owner dao daoFactory contracts targetExtension)
       (filter (\<lambda>targetExtension. enabled (configs targetExtension)) (Object_values (own extensions)))
       ()"

text \<open>Lines 323 to 502: \<^verbatim>\<open>configureDao\<close>.\<close>

definition configureDao ::
  "imported \<Rightarrow> jsval \<Rightarrow> contract_instance \<Rightarrow> contract_instance \<Rightarrow> handle dictionary \<Rightarrow> handle dictionary \<Rightarrow>
     options \<Rightarrow> unit io" where
  "configureDao imp owner dao daoFactory extensions adapters opts =
     then_io (configureAdapters imp owner dao daoFactory extensions adapters opts)
       (\<lambda>_. configureExtensions owner dao daoFactory extensions)"

section \<open>The off-chain voting installer\<close>

text \<open>
  Lines 558 to 641: \<^verbatim>\<open>configureOffchainVoting\<close>. Its parameters other than \<^verbatim>\<open>dao\<close>,
  \<^verbatim>\<open>daoFactory\<close> and \<^verbatim>\<open>extensions\<close> are the properties of the options bag of the same
  name; \<^verbatim>\<open>null\<close> in the result is \<open>None\<close>.
\<close>

record voting_helpers =
  snapshotProposalContract :: "contract_instance option"
  handleBadReporterAdapter :: "contract_instance option"
  offchainVoting :: "handle option"

definition configureOffchainVoting ::
  "imported \<Rightarrow> options \<Rightarrow> contract_instance \<Rightarrow> contract_instance \<Rightarrow> handle dictionary \<Rightarrow>
     voting_helpers io" where
  "configureOffchainVoting imp opts dao daoFactory extensions =
     (let votingHelpers =
            \<lparr>snapshotProposalContract = None, handleBadReporterAdapter = None,
             offchainVoting = None\<rparr>;
          owner = bag opts ''owner''
      in
      if \<not> truthy (bag opts ''offchainVoting'') then resolve votingHelpers
      else
        then_io
          (chain_call (Dao_getAdapterAddress (instance_address dao) (sha3 (VOTING_ADAPTER imp))))
          (\<lambda>currentVotingAdapterAddress.
        then_io
          (deployFunction opts (bag opts ''SnapshotProposalContract'')
             (Some [bag opts ''chainId'']) None)
          (\<lambda>snapshotProposal.
        then_io
          (deployFunction opts (bag opts ''OffchainVotingHashContract'')
             (Some [Addr (instance_address snapshotProposal)]) None)
          (\<lambda>offchainVotingHashContract.
        then_io
          (deployFunction opts (bag opts ''KickBadReporterAdapter'') None None)
          (\<lambda>handleBadReporter.
        then_io
          (deployFunction opts (bag opts ''OffchainVotingContract'')
             (Some [Addr currentVotingAdapterAddress,
                    Addr (instance_address offchainVotingHashContract),
                    Addr (instance_address snapshotProposal),
                    Addr (instance_address handleBadReporter),
                    bag opts ''offchainAdmin''])
             None)
          (\<lambda>deployed.
        then_io (with_configs deployed)
          (\<lambda>offchainVotingContract.
        then_io
          (chain_call
             (DaoFactory_updateAdapter (instance_address daoFactory) (instance_address dao)
                (entryDao (config_id (configs offchainVotingContract))
                   (address offchainVotingContract) (acls (configs offchainVotingContract)))
                owner))
          (\<lambda>_.
        case property extensions ''bankExt'' of
          None \<Rightarrow> throw TypeError
        | Some bankExt \<Rightarrow>
        then_io
          (chain_call
             (Dao_setAclToExtensionForAdapter (instance_address dao) (address bankExt)
                (address offchainVotingContract)
                (entryBank_flags (address offchainVotingContract)
                   (acls (configs offchainVotingContract)))
                owner))
          (\<lambda>_.
        then_io
          (chain_call
             (Adapter_configureDao (address offchainVotingContract)
                [Addr (instance_address dao), bag opts ''votingPeriod'',
                 bag opts ''gracePeriod'', Num 10]
                owner))
          (\<lambda>_.
        resolve
          \<lparr>snapshotProposalContract = Some snapshotProposal,
           handleBadReporterAdapter = Some handleBadReporter,
           offchainVoting = Some offchainVotingContract\<rparr>))))))))))"

section \<open>The full deployment\<close>

text \<open>
  Line 302: the object literal \<^verbatim>\<open>{ ...factories, daoFactory }\<close> is a new object with the
  own properties of \<^verbatim>\<open>factories\<close>, copied in enumeration order, and then the property
  \<^verbatim>\<open>daoFactory\<close>.
\<close>

definition spread_with_daoFactory ::
  "handle dictionary \<Rightarrow> contract_instance \<Rightarrow> contract_instance dictionary" where
  "spread_with_daoFactory factories daoFactory =
     \<lparr>own = put ''daoFactory'' daoFactory
              (map (\<lambda>p. (fst p, as_instance (snd p))) (own_properties (own factories))),
      prototype = None\<rparr>"

text \<open>Lines 241 to 304: \<^verbatim>\<open>deployDao\<close> and the result it returns.\<close>

record deployment =
  dao :: contract_instance
  adapters :: "handle dictionary"
  extensions :: "handle dictionary"
  testContracts :: "handle dictionary"
  utilContracts :: "handle dictionary"
  votingHelpers :: voting_helpers
  factories :: "contract_instance dictionary"

text \<open>
  The two spreads of \<^verbatim>\<open>deployDao\<close>: the options handed to \<^verbatim>\<open>cloneDao\<close> (line 242) and
  the options of every later phase (line 247).
\<close>

definition cloneDao_options :: "options \<Rightarrow> options" where
  "cloneDao_options options0 =
     options0\<lparr>bag := (bag options0)
       (''name'' :=
          (if truthy (bag options0 ''daoName'') then bag options0 ''daoName''
           else Str ''test-dao''))\<rparr>"

definition deployDao_options :: "imported \<Rightarrow> options \<Rightarrow> nat \<Rightarrow> options" where
  "deployDao_options imp options0 dao_address =
     options0\<lparr>bag := (bag options0)
       (''daoAddress'' := Addr dao_address,
        ''unitTokenToMint'' := UNITS imp,
        ''lootTokenToMint'' := LOOT imp)\<rparr>"

text \<open>Lines 291 to 293: the optional call of \<^verbatim>\<open>finalizeDao\<close>.\<close>

definition finalizeDao :: "options \<Rightarrow> contract_instance \<Rightarrow> unit io" where
  "finalizeDao opts theDao =
     (if truthy (bag opts ''finalize'')
      then then_io (chain_call (Dao_finalizeDao (instance_address theDao) (bag opts ''owner'')))
             (\<lambda>_. resolve ())
      else resolve ())"

definition deployDao :: "imported \<Rightarrow> options \<Rightarrow> deployment io" where
  "deployDao imp options0 =
     then_io (cloneDao (cloneDao_options options0))
       (\<lambda>cloned.
     let theDao = fst cloned;
         daoFactory = fst (snd cloned);
         opts = deployDao_options imp options0 (instance_address theDao)
     in
     then_io (createFactories opts)
       (\<lambda>createdFactories.
     then_io (createExtensions theDao createdFactories opts)
       (\<lambda>createdExtensions.
     then_io (createAdapters opts)
       (\<lambda>createdAdapters.
     then_io
       (configureDao imp (bag opts ''owner'') theDao daoFactory createdExtensions
          createdAdapters opts)
       (\<lambda>_.
     then_io (configureOffchainVoting imp opts theDao daoFactory createdExtensions)
       (\<lambda>helpers.
     let allAdapters =
           (case offchainVoting helpers of
              None \<Rightarrow> createdAdapters
            | Some voting \<Rightarrow> assign (config_alias (configs voting)) voting createdAdapters)
     in
     then_io (createUtilContracts opts)
       (\<lambda>createdUtilContracts.
     then_io (createTestContracts opts)
       (\<lambda>createdTestContracts.
     then_io (finalizeDao opts theDao)
       (\<lambda>_.
     resolve
       \<lparr>dao = theDao,
        adapters = allAdapters,
        extensions = createdExtensions,
        testContracts = createdTestContracts,
        utilContracts = createdUtilContracts,
        votingHelpers = helpers,
        factories =
          spread_with_daoFactory createdFactories daoFactory\<rparr>)))))))))"

section \<open>Example inputs\<close>

text \<open>
  A small descriptor table in the style of the repository's configuration: one factory
  with the extension it generates, one adapter, one utility contract and one test
  token; a bag registering each artifact under its name; and a chain that accepts every
  call and hands out fresh addresses.
\<close>

definition example_config :: config where
  "example_config =
     \<lparr>config_id = ''dao-registry'', config_name = ''DaoRegistry'', config_alias = ''dao'',
      config_type = Core, enabled = True, skipAutoDeploy = False, deploymentArgs = None,
      generatesExtensionId = None,
      acls = \<lparr>acls_dao = Some [], acls_extensions = []\<rparr>,
      daoConfigs = None, buildAclFlag = False\<rparr>"

definition example_table :: "config list" where
  "example_table =
     [example_config
        \<lparr>config_id := ''bank-factory'', config_name := ''BankFactory'',
         config_alias := ''bankExtFactory'', config_type := Factory,
         generatesExtensionId := Some ''bank''\<rparr>,
      example_config
        \<lparr>config_id := ''bank'', config_name := ''BankExtension'', config_alias := ''bankExt'',
         config_type := Extension, buildAclFlag := True\<rparr>,
      example_config
        \<lparr>config_id := ''voting'', config_name := ''VotingContract'', config_alias := ''voting'',
         config_type := Adapter, daoConfigs := Some [[''daoAddress'', ''bank'']],
         acls := \<lparr>acls_dao = Some [''SUBMIT_PROPOSAL''],
                  acls_extensions = [(''bank'', [''WITHDRAW''])]\<rparr>\<rparr>,
      example_config
        \<lparr>config_id := ''multicall'', config_name := ''Multicall'', config_alias := ''multicall'',
         config_type := Util\<rparr>,
      example_config
        \<lparr>config_id := ''test-token-1'', config_name := ''TestToken1'',
         config_alias := ''testToken1'', config_type := Test,
         deploymentArgs := Some [''supply'']\<rparr>,
      example_config
        \<lparr>config_id := ''voting'', config_name := ''OffchainVotingContract'',
         config_alias := ''voting'', config_type := Adapter, skipAutoDeploy := True\<rparr>]"

definition example_bag :: "string \<Rightarrow> jsval" where
  "example_bag =
     (\<lambda>_. Undefined)
       (''owner'' := Addr 1,
        ''DaoRegistry'' := Contract ''DaoRegistry'',
        ''DaoFactory'' := Contract ''DaoFactory'',
        ''BankFactory'' := Contract ''BankFactory'',
        ''BankExtension'' := Contract ''BankExtension'',
        ''VotingContract'' := Contract ''VotingContract'',
        ''Multicall'' := Contract ''Multicall'',
        ''TestToken1'' := Contract ''TestToken1'',
        ''SnapshotProposalContract'' := Contract ''SnapshotProposalContract'',
        ''KickBadReporterAdapter'' := Contract ''KickBadReporterAdapter'',
        ''OffchainVotingContract'' := Contract ''OffchainVotingContract'',
        ''OffchainVotingHashContract'' := Contract ''OffchainVotingHashContract'',
        ''supply'' := Num 0)"

definition example_options :: options where
  "example_options = \<lparr>bag = example_bag, contractConfigs = example_table\<rparr>"

definition example_imported :: imported where
  "example_imported =
     \<lparr>extensionsIdsMap = [(''BANK_EXT'', ''bank'')], VOTING_ADAPTER = ''voting'',
      UNITS = Str ''0x00000000000000000000000000000000000FF1CE'',
      LOOT = Str ''0x00000000000000000000000000000000B105F00D''\<rparr>"

definition example_chain :: chain where
  "example_chain =
     \<lparr>calls = [], rejects = (\<lambda>_ _. False), answer = (\<lambda>history _. 100 + length history)\<rparr>"

definition example_token :: config where
  "example_token =
     example_config
       \<lparr>config_id := ''test-token-1'', config_name := ''TestToken1'',
        config_alias := ''testToken1'', config_type := Test,
        deploymentArgs := Some [''supply'', ''decimals'']\<rparr>"

definition example_broken_table :: "config list" where
  "example_broken_table =
     [example_config
        \<lparr>config_id := ''bank-factory'', config_name := ''BankFactory'',
         config_alias := ''bankExtFactory'', config_type := Factory,
         generatesExtensionId := Some ''bank''\<rparr>,
      example_config
        \<lparr>config_id := ''bank'', config_name := ''BankExtension'', config_alias := ''bankExt'',
         config_type := Extension, buildAclFlag := True\<rparr>,
      example_config
        \<lparr>config_id := ''nft-factory'', config_name := ''NFTFactory'',
         config_alias := ''erc721ExtFactory'', config_type := Factory,
         generatesExtensionId := Some ''nft''\<rparr>]"

definition example_broken_options :: options where
  "example_broken_options =
     \<lparr>bag = example_bag(''NFTFactory'' := Contract ''NFTFactory''),
      contractConfigs = example_broken_table\<rparr>"

section \<open>The order of DAO parameter configuration, as the spec words it\<close>

text \<open>
  The spec describes DAO parameter configuration as a sequence: for each enabled
  (non-skipped) adapter that declares parameter groups, in order, and for each of its
  groups, in order, resolve the names of the group and invoke the adapter's configuration
  entry point with the resolved values. \<open>parameter_steps\<close> lists these steps, each
  either the error of a failed resolution or the call to issue, and \<open>in_sequence\<close>
  runs such a list one step at a time, stopping at the first failure. They follow the
  spec's words; \<^verbatim>\<open>configureAdaptersWithDAOParameters\<close> above follows the source.
\<close>

definition parameter_steps ::
  "imported \<Rightarrow> handle dictionary \<Rightarrow> handle dictionary \<Rightarrow> options \<Rightarrow> (error + call) list" where
  "parameter_steps imp exts adps opts =
     concat
       (map (\<lambda>adapter.
               map (\<lambda>group.
                      case map_throw
                             (\<lambda>configName.
                                readConfigValue imp exts opts configName
                                  (config_name (configs adapter)))
                             group of
                        Inl e \<Rightarrow> Inl e
                      | Inr resolved \<Rightarrow>
                          Inr (Adapter_configureDao (address adapter) resolved (bag opts ''owner'')))
                 (case daoConfigs (configs adapter) of None \<Rightarrow> [] | Some groups \<Rightarrow> groups))
          (filter (\<lambda>a. enabled (configs a) \<and> \<not> skipAutoDeploy (configs a)) (Object_values (own adps))))"

fun in_sequence :: "(error + call) list \<Rightarrow> unit io" where
  "in_sequence [] w = (Inr (), w)"
| "in_sequence (Inl e # rest) w = (Inl e, w)"
| "in_sequence (Inr c # rest) w =
     (case chain_call c w of
        (Inl e, w') \<Rightarrow> (Inl e, w')
      | (Inr _, w') \<Rightarrow> in_sequence rest w')"

text \<open>The dictionaries of deployed extensions and adapters of the example.\<close>

definition example_extensions :: "handle dictionary" where
  "example_extensions =
     \<lparr>own = [(''bankExt'', \<lparr>configs = example_table ! 1, address = 106\<rparr>)],
      prototype = None\<rparr>"

definition example_adapters :: "handle dictionary" where
  "example_adapters =
     \<lparr>own = [(''voting'', \<lparr>configs = example_table ! 2, address = 109\<rparr>)],
      prototype = None\<rparr>"

section \<open>The structure of a result, without its addresses\<close>

text \<open>
  What a dictionary of deployed contracts looks like once the addresses are forgotten:
  its keys, each with the descriptor of its entry, and the descriptor of its prototype,
  if it has been given one (\<open>shape\<close>). The descriptor that the
  deploy primitive attaches to an instance of a given contract, by the contract's name
  (\<open>attached\<close>); the descriptor that ends up on the extension created by a factory
  (\<open>generated\<close>); and the dictionary that registering the tagged instances of a list,
  one after the other under their aliases, builds (\<open>registered\<close>). These describe
  results; the functions above compute them.
\<close>

definition shape :: "handle dictionary \<Rightarrow> config dictionary" where
  "shape m =
     \<lparr>own = map (\<lambda>p. (fst p, configs (snd p))) (own m),
      prototype = map_option configs (prototype m)\<rparr>"

definition attached :: "options \<Rightarrow> jsval \<Rightarrow> config option" where
  "attached opts contract =
     (case contract of
        Contract nm \<Rightarrow> find (\<lambda>c. config_name c = nm) (contractConfigs opts)
      | _ \<Rightarrow> None)"

definition generated :: "options \<Rightarrow> config \<Rightarrow> config option" where
  "generated opts factoryConfigs =
     (case find (\<lambda>c. Some (config_id c) = generatesExtensionId factoryConfigs)
             (contractConfigs opts) of
        None \<Rightarrow> None
      | Some extensionConfigs \<Rightarrow> attached opts (bag opts (config_name extensionConfigs)))"

definition registered ::
  "('a \<Rightarrow> config option) \<Rightarrow> 'a list \<Rightarrow> config dictionary \<Rightarrow> config dictionary" where
  "registered tag xs s =
     fold (\<lambda>x s. case tag x of None \<Rightarrow> s | Some c \<Rightarrow> assign (config_alias c) c s) xs s"

text \<open>
  The enabled, non-skipped descriptors of a category, in table order (\<open>eligible\<close>);
  the structure of a whole result (\<open>structure_of\<close>): the result with every address
  forgotten; and the dictionary of descriptors that a phase deploying the eligible
  descriptors of a category is expected to register (\<open>expected\<close>).
\<close>

definition eligible :: "ContractType \<Rightarrow> options \<Rightarrow> config list" where
  "eligible category opts =
     filter (\<lambda>cfg. config_type cfg = category \<and> enabled cfg \<and> \<not> skipAutoDeploy cfg)
       (contractConfigs opts)"

definition structure_of ::
  "deployment \<Rightarrow>
     config option \<times> config dictionary \<times> config dictionary \<times> config dictionary \<times>
     config dictionary \<times>
     (config option option \<times> config option option \<times> config option) \<times>
     (string \<times> config option) list \<times> config option option" where
  "structure_of r =
     (instance_configs (dao r),
      shape (adapters r),
      shape (extensions r),
      shape (testContracts r),
      shape (utilContracts r),
      (map_option instance_configs (snapshotProposalContract (votingHelpers r)),
       map_option instance_configs (handleBadReporterAdapter (votingHelpers r)),
       map_option configs (offchainVoting (votingHelpers r))),
      map (\<lambda>p. (fst p, instance_configs (snd p))) (own (factories r)),
      map_option instance_configs (prototype (factories r)))"

definition expected ::
  "ContractType \<Rightarrow> imported \<Rightarrow> options \<Rightarrow> config dictionary" where
  "expected category imp opts0 =
     registered
       (\<lambda>cfg. attached (deployDao_options imp opts0 0)
                 (bag (deployDao_options imp opts0 0) (config_name cfg)))
       (eligible category opts0) new_object"

text \<open>
  A second chain, handing out other addresses, and a variant of the example in which the
  off-chain voting feature is on and the descriptor of the off-chain voting contract has
  an alias of its own and is no adapter.
\<close>

definition example_other_chain :: chain where
  "example_other_chain =
     \<lparr>calls = [], rejects = (\<lambda>_ _. False), answer = (\<lambda>history _. 500 + 2 * length history)\<rparr>"

definition example_voting_options :: options where
  "example_voting_options =
     \<lparr>bag = example_bag(''offchainVoting'' := Bool True),
      contractConfigs =
        example_table
          [5 := example_config
                  \<lparr>config_id := ''voting'', config_name := ''OffchainVotingContract'',
                   config_alias := ''offchainVoting'', config_type := Core,
                   skipAutoDeploy := True\<rparr>]\<rparr>"

text \<open>
  The dictionary that holds one entry per descriptor of a list, each under its alias, in
  the order of the list, and has no prototype of its own making (\<open>one_entry_each\<close>).

  A well-formed input: the descriptors of the table have pairwise distinct names; every
  contract that the options of the deployment phases hold under the name of a descriptor
  carries that name as its contract name; within each of the categories Factory, Adapter,
  Util and Test the enabled, non-skipped descriptors have pairwise distinct aliases, none
  of them \<^verbatim>\<open>__proto__\<close>; and no enabled, non-skipped Factory descriptor has the alias
  \<^verbatim>\<open>daoFactory\<close>.

  The extension descriptors that the enabled, non-skipped factories name in
  \<^verbatim>\<open>generatesExtensionId\<close>, in the enumeration order of the dictionary of factories
  (\<open>generated_extensions\<close>); and the condition that the factories and the Extension
  descriptors of the table agree (\<open>consistent_links\<close>): these are exactly the enabled,
  non-skipped Extension descriptors, under pairwise distinct aliases other than
  \<^verbatim>\<open>__proto__\<close>.
\<close>

definition one_entry_each :: "config list \<Rightarrow> config dictionary" where
  "one_entry_each cfgs = \<lparr>own = map (\<lambda>c. (config_alias c, c)) cfgs, prototype = None\<rparr>"

definition well_formed :: "imported \<Rightarrow> options \<Rightarrow> bool" where
  "well_formed imp opts0 \<longleftrightarrow>
     distinct (map config_name (contractConfigs opts0)) \<and>
     list_all
       (\<lambda>cfg. case bag (deployDao_options imp opts0 0) (config_name cfg) of
                 Contract nm \<Rightarrow> nm = config_name cfg
               | _ \<Rightarrow> True)
       (contractConfigs opts0) \<and>
     list_all
       (\<lambda>category.
          distinct (map config_alias (eligible category opts0)) \<and>
          ''__proto__'' \<notin> set (map config_alias (eligible category opts0)))
       [Factory, Adapter, Util, Test] \<and>
     ''daoFactory'' \<notin> set (map config_alias (eligible Factory opts0))"

definition generated_extensions :: "options \<Rightarrow> config list" where
  "generated_extensions opts0 =
     List.map_filter
       (\<lambda>f. find (\<lambda>c. Some (config_id c) = generatesExtensionId f) (contractConfigs opts0))
       (Object_values (own (one_entry_each (eligible Factory opts0))))"

definition consistent_links :: "options \<Rightarrow> bool" where
  "consistent_links opts0 \<longleftrightarrow>
     set (generated_extensions opts0) = set (eligible Extension opts0) \<and>
     distinct (map config_alias (generated_extensions opts0)) \<and>
     ''__proto__'' \<notin> set (map config_alias (generated_extensions opts0))"

section \<open>One entry per descriptor, as the spec words it\<close>

text \<open>
  The spec's testable property, in its words: the result aggregate contains exactly one
  entry per enabled, non-skipped descriptor of a deployable category, keyed by its
  declared alias, and zero entries for disabled or skipped descriptors. \<open>entries_of\<close> is
  the dictionary of the result that belongs to a category, with the descriptor of each
  entry. \<open>example_result\<close> is what the example run returns;
  \<open>example_full_options\<close> are the options of the example with the test tokens and the
  off-chain voting feature switched on, and \<open>example_full_result\<close> is what the run with
  them returns.
\<close>

definition entries_of :: "deployment \<Rightarrow> ContractType \<Rightarrow> (string \<times> config option) list" where
  "entries_of r category =
     (case category of
        Factory \<Rightarrow> map (\<lambda>p. (fst p, instance_configs (snd p))) (own (factories r))
      | Extension \<Rightarrow> map (\<lambda>p. (fst p, Some (configs (snd p)))) (own (extensions r))
      | Adapter \<Rightarrow> map (\<lambda>p. (fst p, Some (configs (snd p)))) (own (adapters r))
      | Util \<Rightarrow> map (\<lambda>p. (fst p, Some (configs (snd p)))) (own (utilContracts r))
      | Test \<Rightarrow> map (\<lambda>p. (fst p, Some (configs (snd p)))) (own (testContracts r))
      | Core \<Rightarrow> [])"

definition one_entry_per_descriptor :: "options \<Rightarrow> deployment \<Rightarrow> bool" where
  "one_entry_per_descriptor opts0 r \<longleftrightarrow>
     list_all
       (\<lambda>cfg.
          if config_type cfg = Core then True
          else if enabled cfg \<and> \<not> skipAutoDeploy cfg
          then length (filter (\<lambda>entry. entry = (config_alias cfg, Some cfg))
                         (entries_of r (config_type cfg))) = 1
          else filter (\<lambda>entry. snd entry = Some cfg) (entries_of r (config_type cfg)) = [])
       (contractConfigs opts0)"

definition example_result :: deployment where
  "example_result =
     \<lparr>dao = \<lparr>instance_configs = None, instance_address = 102\<rparr>,
      adapters =
        \<lparr>own = [(''voting'', \<lparr>configs = example_table ! 2, address = 109\<rparr>)],
         prototype = None\<rparr>,
      extensions =
        \<lparr>own = [(''bankExt'', \<lparr>configs = example_table ! 1, address = 106\<rparr>)],
         prototype = None\<rparr>,
      testContracts = new_object,
      utilContracts =
        \<lparr>own = [(''multicall'', \<lparr>configs = example_table ! 3, address = 113\<rparr>)],
         prototype = None\<rparr>,
      votingHelpers =
        \<lparr>snapshotProposalContract = None, handleBadReporterAdapter = None,
         offchainVoting = None\<rparr>,
      factories =
        \<lparr>own =
           [(''bankExtFactory'',
             \<lparr>instance_configs = Some (example_table ! 0), instance_address = 104\<rparr>),
            (''daoFactory'', \<lparr>instance_configs = None, instance_address = 100\<rparr>)],
         prototype = None\<rparr>\<rparr>"

definition example_full_options :: options where
  "example_full_options =
     \<lparr>bag = example_bag(''deployTestTokens'' := Bool True, ''offchainVoting'' := Bool True),
      contractConfigs = example_table\<rparr>"

definition example_full_result :: deployment where
  "example_full_result =
     \<lparr>dao = \<lparr>instance_configs = None, instance_address = 102\<rparr>,
      adapters =
        \<lparr>own = [(''voting'', \<lparr>configs = example_table ! 5, address = 117\<rparr>)],
         prototype = None\<rparr>,
      extensions =
        \<lparr>own = [(''bankExt'', \<lparr>configs = example_table ! 1, address = 106\<rparr>)],
         prototype = None\<rparr>,
      testContracts =
        \<lparr>own = [(''testToken1'', \<lparr>configs = example_table ! 4, address = 122\<rparr>)],
         prototype = None\<rparr>,
      utilContracts =
        \<lparr>own = [(''multicall'', \<lparr>configs = example_table ! 3, address = 121\<rparr>)],
         prototype = None\<rparr>,
      votingHelpers =
        \<lparr>snapshotProposalContract = Some \<lparr>instance_configs = None, instance_address = 114\<rparr>,
         handleBadReporterAdapter = Some \<lparr>instance_configs = None, instance_address = 116\<rparr>,
         offchainVoting = Some \<lparr>configs = example_table ! 5, address = 117\<rparr>\<rparr>,
      factories =
        \<lparr>own =
           [(''bankExtFactory'',
             \<lparr>instance_configs = Some (example_table ! 0), instance_address = 104\<rparr>),
            (''daoFactory'', \<lparr>instance_configs = None, instance_address = 100\<rparr>)],
         prototype = None\<rparr>\<rparr>"

section \<open>Kinds of calls\<close>


fun is_Deploy :: "call \<Rightarrow> bool" where
  "is_Deploy (Deploy nm args sender) = True"
| "is_Deploy _ = False"






section \<open>Basic facts about promise chains\<close>

lemma then_io_Inr: "m w = (Inr x, w') \<Longrightarrow> then_io m f w = f x w'"
  by (simp add: then_io_def)

lemma then_io_Inl: "m w = (Inl e, w') \<Longrightarrow> then_io m f w = (Inl e, w')"
  by (simp add: then_io_def)

lemma then_io_resolve: "then_io (resolve x) f w = f x w"
  by (simp add: then_io_def resolve_def)

lemma then_io_throw: "then_io (throw e) f w = (Inl e, w)"
  by (simp add: then_io_def throw_def)

lemma map_throw_all:
  "(\<And>x. x \<in> set xs \<Longrightarrow> f x = Inr (g x)) \<Longrightarrow> map_throw f xs = Inr (map g xs)"
  by (induction xs) auto

lemma map_throw_first:
  "(\<And>x. x \<in> set pre \<Longrightarrow> f x = Inr (g x)) \<Longrightarrow> f a = Inl e \<Longrightarrow>
   map_throw f (pre @ a # post) = Inl e"
  by (induction pre) auto

lemma find_by_key:
  "x \<in> set xs \<Longrightarrow> distinct (map f xs) \<Longrightarrow> find (\<lambda>y. f y = f x) xs = Some x"
  by (induction xs) (auto simp: image_iff)

section \<open>Facts about the contract deployer\<close>

lemma deployFunction_Contract:
  "deployFunction opts (Contract nm) args s w =
     (if rejects w (calls w) (Deploy nm args s)
      then (Inl (ChainCallError (Deploy nm args s)),
            w\<lparr>calls := calls w @ [(Deploy nm args s, Rejected)]\<rparr>)
      else (Inr (embedConfigs (answer w (calls w) (Deploy nm args s)) nm (contractConfigs opts)),
            w\<lparr>calls := calls w @ [(Deploy nm args s, Done)]\<rparr>))"
  by (simp add: deployFunction_def then_io_def chain_call_def resolve_def)


lemma deployFunction_fails:
  "deployFunction opts c args s w = (Inl e, w') \<Longrightarrow>
   (e = TypeError \<and> w' = w) \<or>
   (\<exists>k. e = ChainCallError k \<and> w' = w\<lparr>calls := calls w @ [(k, Rejected)]\<rparr>)"
  by (cases c) (auto simp: deployFunction_def throw_def then_io_def chain_call_def resolve_def
      split: if_splits)

lemma deployContract_not_found:
  "\<not> truthy (bag opts (config_name cfg)) \<Longrightarrow>
   deployContract cfg opts w = (Inl (ContractNotFound (config_name cfg)), w)"
  by (simp add: deployContract_def throw_def)

lemma deployContract_missing_argument:
  assumes "truthy (bag opts (config_name cfg))"
    and "deploymentArgs cfg = Some (pre @ a # post)"
    and "\<forall>x \<in> set pre. bag opts x \<noteq> Null \<and> bag opts x \<noteq> Undefined"
    and "bag opts a = Null \<or> bag opts a = Undefined"
  shows "deployContract cfg opts w =
           (Inl (MissingDeploymentArgument a (config_name cfg)), w)"
proof -
  let ?f = "\<lambda>argName. let arg = bag opts argName in
              if arg \<noteq> Null \<and> arg \<noteq> Undefined then Inr arg
              else Inl (MissingDeploymentArgument argName (config_name cfg))"
  have "map_throw ?f (pre @ a # post) = Inl (MissingDeploymentArgument a (config_name cfg))"
    using assms(3,4) by (intro map_throw_first [where g = "bag opts"]) (auto simp: Let_def)
  moreover obtain b bs where "pre @ a # post = b # bs"
    by (cases pre) auto
  ultimately show ?thesis
    using assms(1,2) by (simp add: deployContract_def throw_def)
qed

lemma deployContract_with_arguments:
  assumes "truthy (bag opts (config_name cfg))"
    and "deploymentArgs cfg = Some args" and "args \<noteq> []"
    and "\<forall>x \<in> set args. bag opts x \<noteq> Null \<and> bag opts x \<noteq> Undefined"
  shows "deployContract cfg opts w =
           deployFunction opts (bag opts (config_name cfg)) (Some (map (bag opts) args)) None w"
proof -
  let ?f = "\<lambda>argName. let arg = bag opts argName in
              if arg \<noteq> Null \<and> arg \<noteq> Undefined then Inr arg
              else Inl (MissingDeploymentArgument argName (config_name cfg))"
  have "map_throw ?f args = Inr (map (bag opts) args)"
    using assms(4) by (intro map_throw_all) (auto simp: Let_def)
  moreover obtain b bs where "args = b # bs"
    using assms(3) by (cases args) auto
  ultimately show ?thesis
    using assms(1,2) by (simp add: deployContract_def)
qed

lemma deployContract_without_arguments:
  assumes "truthy (bag opts (config_name cfg))"
    and "deploymentArgs cfg = None \<or> deploymentArgs cfg = Some []"
  shows "deployContract cfg opts w =
           deployFunction opts (bag opts (config_name cfg)) None None w"
  using assms by (auto simp: deployContract_def)

lemma split_first_missing:
  assumes "\<exists>x \<in> set args. \<not> P x"
  shows "\<exists>pre a post. args = pre @ a # post \<and> (\<forall>x \<in> set pre. P x) \<and> \<not> P a"
  using assms
proof (induction args)
  case Nil
  then show ?case by simp
next
  case (Cons x xs)
  show ?case
  proof (cases "P x")
    case True
    with Cons obtain pre a post where "xs = pre @ a # post" "\<forall>x \<in> set pre. P x" "\<not> P a"
      by auto
    with True have "x # xs = (x # pre) @ a # post \<and> (\<forall>y \<in> set (x # pre). P y) \<and> \<not> P a"
      by simp
    then show ?thesis by blast
  next
    case False
    then have "x # xs = [] @ x # xs \<and> (\<forall>y \<in> set []. P y) \<and> \<not> P x"
      by simp
    then show ?thesis by blast
  qed
qed

lemma deployContract_fails:
  assumes "deployContract cfg opts w = (Inl e, w')"
  shows "(w' = w \<and> (e = ContractNotFound (config_name cfg) \<or> e = TypeError \<or>
            (\<exists>a. e = MissingDeploymentArgument a (config_name cfg)))) \<or>
         (\<exists>k. e = ChainCallError k \<and> w' = w\<lparr>calls := calls w @ [(k, Rejected)]\<rparr>)"
proof (cases "truthy (bag opts (config_name cfg))")
  case False
  then show ?thesis
    using assms by (simp add: deployContract_not_found)
next
  case True
  show ?thesis
  proof (cases "deploymentArgs cfg = None \<or> deploymentArgs cfg = Some []")
    case True
    with \<open>truthy _\<close> assms show ?thesis
      using deployFunction_fails by (fastforce simp: deployContract_without_arguments)
  next
    case False
    then obtain args where args: "deploymentArgs cfg = Some args" "args \<noteq> []"
      by auto
    show ?thesis
    proof (cases "\<forall>x \<in> set args. bag opts x \<noteq> Null \<and> bag opts x \<noteq> Undefined")
      case True
      with \<open>truthy _\<close> args assms show ?thesis
        using deployFunction_fails by (fastforce simp: deployContract_with_arguments)
    next
      case False
      then have "\<exists>x \<in> set args. \<not> (bag opts x \<noteq> Null \<and> bag opts x \<noteq> Undefined)"
        by simp
      from split_first_missing [OF this]
      obtain pre a post where "args = pre @ a # post"
        "\<forall>x \<in> set pre. bag opts x \<noteq> Null \<and> bag opts x \<noteq> Undefined"
        "bag opts a = Null \<or> bag opts a = Undefined"
        by auto
      with \<open>truthy _\<close> args assms show ?thesis
        by (auto simp: deployContract_missing_argument)
    qed
  qed
qed

section \<open>The contract deployer fails before it deploys\<close>

text \<open>
  Claim C2. \<^verbatim>\<open>deployContract\<close>, given a descriptor and the options bag, fails with the
  error naming the descriptor's contract when the bag holds no contract under the
  descriptor's name. When the descriptor declares a non-empty list of deployment
  arguments, each is read by name from the bag, in order: the first one that is absent
  makes the call fail with the error naming that argument and the descriptor, and when
  all are there the deploy primitive is invoked with the list of their values in the
  declared order. With no declared arguments the primitive is invoked without an argument
  list. The two configuration errors leave the chain untouched, and whenever
  \<^verbatim>\<open>deployContract\<close> fails no call that the chain carried out has been added: it never
  performs a deployment when it fails.
\<close>

theorem deployContract_fail_fast:
  "(\<not> truthy (bag opts (config_name cfg)) \<longrightarrow>
      deployContract cfg opts w = (Inl (ContractNotFound (config_name cfg)), w)) \<and>
   (truthy (bag opts (config_name cfg)) \<and> deploymentArgs cfg = Some (pre @ a # post) \<and>
    (\<forall>x \<in> set pre. bag opts x \<noteq> Null \<and> bag opts x \<noteq> Undefined) \<and>
    (bag opts a = Null \<or> bag opts a = Undefined) \<longrightarrow>
      deployContract cfg opts w = (Inl (MissingDeploymentArgument a (config_name cfg)), w)) \<and>
   (truthy (bag opts (config_name cfg)) \<and> deploymentArgs cfg = Some args \<and> args \<noteq> [] \<and>
    (\<forall>x \<in> set args. bag opts x \<noteq> Null \<and> bag opts x \<noteq> Undefined) \<longrightarrow>
      deployContract cfg opts w =
        deployFunction opts (bag opts (config_name cfg)) (Some (map (bag opts) args)) None w) \<and>
   (truthy (bag opts (config_name cfg)) \<and>
    (deploymentArgs cfg = None \<or> deploymentArgs cfg = Some []) \<longrightarrow>
      deployContract cfg opts w =
        deployFunction opts (bag opts (config_name cfg)) None None w) \<and>
   (deployContract cfg opts w = (Inl e, w') \<longrightarrow>
      filter (\<lambda>issued. snd issued = Done) (calls w') =
      filter (\<lambda>issued. snd issued = Done) (calls w))"
proof (intro conjI impI)
  assume "deployContract cfg opts w = (Inl e, w')"
  from deployContract_fails [OF this]
  show "filter (\<lambda>issued. snd issued = Done) (calls w') =
        filter (\<lambda>issued. snd issued = Done) (calls w)"
    by auto
qed (auto simp: deployContract_not_found deployContract_missing_argument
       deployContract_with_arguments deployContract_without_arguments)

theorem deployContract_fail_fast_witness:
  "deployContract example_token (example_options\<lparr>bag := example_bag(''TestToken1'' := Undefined)\<rparr>)
     example_chain = (Inl (ContractNotFound ''TestToken1''), example_chain) \<and>
   deployContract example_token example_options example_chain =
     (Inl (MissingDeploymentArgument ''decimals'' ''TestToken1''), example_chain) \<and>
   calls (snd (deployContract example_token
            (example_options\<lparr>bag := example_bag(''decimals'' := Num 18)\<rparr>) example_chain)) =
     [(Deploy ''TestToken1'' (Some [Num 0, Num 18]) None, Done)] \<and>
   calls (snd (deployContract (example_token\<lparr>deploymentArgs := Some []\<rparr>) example_options
            example_chain)) =
     [(Deploy ''TestToken1'' None None, Done)] \<and>
   filter (\<lambda>issued. snd issued = Done) (calls example_chain) = []"
proof -
  let ?absent = "example_options\<lparr>bag := example_bag(''TestToken1'' := Undefined)\<rparr>"
  let ?full = "example_options\<lparr>bag := example_bag(''decimals'' := Num 18)\<rparr>"
  have 1: "deployContract example_token ?absent example_chain =
             (Inl (ContractNotFound ''TestToken1''), example_chain)"
    using deployContract_fail_fast [of ?absent example_token example_chain]
    by (simp add: example_token_def example_config_def)
  have 2: "deployContract example_token example_options example_chain =
             (Inl (MissingDeploymentArgument ''decimals'' ''TestToken1''), example_chain)"
    using deployContract_fail_fast [of example_options example_token example_chain
        "[''supply'']" "''decimals''" "[]"]
    by (simp add: example_token_def example_config_def example_options_def example_bag_def)
  have 3: "deployContract example_token ?full example_chain =
             deployFunction ?full (Contract ''TestToken1'') (Some [Num 0, Num 18]) None example_chain"
    using deployContract_fail_fast [of ?full example_token example_chain _ _ _
        "[''supply'', ''decimals'']"]
    by (simp add: example_token_def example_config_def example_options_def example_bag_def)
  have 4: "deployContract (example_token\<lparr>deploymentArgs := Some []\<rparr>) example_options example_chain =
             deployFunction example_options (Contract ''TestToken1'') None None example_chain"
    using deployContract_fail_fast [of example_options "example_token\<lparr>deploymentArgs := Some []\<rparr>"
        example_chain]
    by (simp add: example_token_def example_config_def example_options_def example_bag_def)
  have 5: "filter (\<lambda>issued. snd issued = Done) (calls example_chain) = []"
    using 2 deployContract_fail_fast [of example_options example_token example_chain _ _ _ _
        "MissingDeploymentArgument ''decimals'' ''TestToken1''" example_chain]
    by (simp add: example_chain_def)
  show ?thesis
    using 1 2 3 4 5 by (simp add: deployFunction_Contract example_chain_def)
qed

section \<open>Which values count as missing\<close>

text \<open>
  Claim C9. \<^verbatim>\<open>deployContract\<close> treats a declared deployment argument as missing exactly
  when the bag holds \<^verbatim>\<open>null\<close> or \<^verbatim>\<open>undefined\<close> under its name: values that are falsy but
  present (\<^verbatim>\<open>0\<close>, \<^verbatim>\<open>false\<close>, the empty string) are accepted and handed to the deploy
  primitive as they are. The lookup of the contract itself, in the same function, is a
  truthiness test: any falsy value under the descriptor's name raises the not-found
  error.
\<close>

theorem deployContract_presence_tests:
  "(truthy (bag opts (config_name cfg)) \<and> deploymentArgs cfg = Some args \<and> args \<noteq> [] \<longrightarrow>
      ((\<exists>a. fst (deployContract cfg opts w) =
              Inl (MissingDeploymentArgument a (config_name cfg))) \<longleftrightarrow>
       (\<exists>x \<in> set args. bag opts x = Null \<or> bag opts x = Undefined))) \<and>
   (truthy (bag opts (config_name cfg)) \<and> deploymentArgs cfg = Some args \<and> args \<noteq> [] \<and>
    (\<forall>x \<in> set args. bag opts x = Num 0 \<or> bag opts x = Bool False \<or> bag opts x = Str [] \<or>
                      truthy (bag opts x)) \<longrightarrow>
      deployContract cfg opts w =
        deployFunction opts (bag opts (config_name cfg)) (Some (map (bag opts) args)) None w) \<and>
   (bag opts (config_name cfg) = Undefined \<or> bag opts (config_name cfg) = Null \<or>
    bag opts (config_name cfg) = Num 0 \<or> bag opts (config_name cfg) = Bool False \<or>
    bag opts (config_name cfg) = Str [] \<longrightarrow>
      deployContract cfg opts w = (Inl (ContractNotFound (config_name cfg)), w))"
proof (intro conjI impI)
  assume h: "truthy (bag opts (config_name cfg)) \<and> deploymentArgs cfg = Some args \<and> args \<noteq> []"
  show "(\<exists>a. fst (deployContract cfg opts w) =
              Inl (MissingDeploymentArgument a (config_name cfg))) \<longleftrightarrow>
        (\<exists>x \<in> set args. bag opts x = Null \<or> bag opts x = Undefined)"
  proof (cases "\<forall>x \<in> set args. bag opts x \<noteq> Null \<and> bag opts x \<noteq> Undefined")
    case True
    with h have eq: "deployContract cfg opts w =
        deployFunction opts (bag opts (config_name cfg)) (Some (map (bag opts) args)) None w"
      by (simp add: deployContract_with_arguments)
    have "fst (deployContract cfg opts w) \<noteq> Inl (MissingDeploymentArgument a (config_name cfg))"
      for a
    proof
      assume "fst (deployContract cfg opts w) = Inl (MissingDeploymentArgument a (config_name cfg))"
      then obtain w' where "deployFunction opts (bag opts (config_name cfg))
          (Some (map (bag opts) args)) None w = (Inl (MissingDeploymentArgument a (config_name cfg)), w')"
        unfolding eq by (cases "deployFunction opts (bag opts (config_name cfg))
          (Some (map (bag opts) args)) None w") simp
      from deployFunction_fails [OF this] show False by auto
    qed
    with True show ?thesis by blast
  next
    case False
    then have "\<exists>x \<in> set args. \<not> (bag opts x \<noteq> Null \<and> bag opts x \<noteq> Undefined)"
      by simp
    from split_first_missing [OF this]
    obtain pre a post where "args = pre @ a # post"
      "\<forall>x \<in> set pre. bag opts x \<noteq> Null \<and> bag opts x \<noteq> Undefined"
      "bag opts a = Null \<or> bag opts a = Undefined"
      by auto
    with h have "deployContract cfg opts w =
        (Inl (MissingDeploymentArgument a (config_name cfg)), w)"
      by (simp add: deployContract_missing_argument)
    then have "\<exists>a. fst (deployContract cfg opts w) =
        Inl (MissingDeploymentArgument a (config_name cfg))"
      by simp
    with False show ?thesis by blast
  qed
next
  assume h: "truthy (bag opts (config_name cfg)) \<and> deploymentArgs cfg = Some args \<and> args \<noteq> [] \<and>
    (\<forall>x \<in> set args. bag opts x = Num 0 \<or> bag opts x = Bool False \<or> bag opts x = Str [] \<or>
                      truthy (bag opts x))"
  then have "\<forall>x \<in> set args. bag opts x \<noteq> Null \<and> bag opts x \<noteq> Undefined"
    by auto
  with h show "deployContract cfg opts w =
        deployFunction opts (bag opts (config_name cfg)) (Some (map (bag opts) args)) None w"
    by (simp add: deployContract_with_arguments)
next
  assume "bag opts (config_name cfg) = Undefined \<or> bag opts (config_name cfg) = Null \<or>
    bag opts (config_name cfg) = Num 0 \<or> bag opts (config_name cfg) = Bool False \<or>
    bag opts (config_name cfg) = Str []"
  then have "\<not> truthy (bag opts (config_name cfg))"
    by auto
  then show "deployContract cfg opts w = (Inl (ContractNotFound (config_name cfg)), w)"
    by (rule deployContract_not_found)
qed

theorem deployContract_presence_tests_witness:
  "calls (snd (deployContract (example_token\<lparr>deploymentArgs := Some [''a'', ''b'', ''c'']\<rparr>)
      (example_options\<lparr>bag := example_bag(''a'' := Num 0, ''b'' := Bool False, ''c'' := Str [])\<rparr>)
      example_chain)) =
     [(Deploy ''TestToken1'' (Some [Num 0, Bool False, Str []]) None, Done)] \<and>
   (\<exists>a. fst (deployContract (example_token\<lparr>deploymentArgs := Some [''a'', ''b'', ''c'']\<rparr>)
      (example_options\<lparr>bag := example_bag(''a'' := Num 0, ''b'' := Null, ''c'' := Str [])\<rparr>)
      example_chain) = Inl (MissingDeploymentArgument a ''TestToken1'')) \<and>
   deployContract example_token (example_options\<lparr>bag := example_bag(''TestToken1'' := Num 0)\<rparr>)
     example_chain = (Inl (ContractNotFound ''TestToken1''), example_chain) \<and>
   deployContract example_token (example_options\<lparr>bag := example_bag(''TestToken1'' := Str [])\<rparr>)
     example_chain = (Inl (ContractNotFound ''TestToken1''), example_chain)"
proof -
  let ?cfg = "example_token\<lparr>deploymentArgs := Some [''a'', ''b'', ''c'']\<rparr>"
  let ?falsy = "example_options\<lparr>bag := example_bag(''a'' := Num 0, ''b'' := Bool False, ''c'' := Str [])\<rparr>"
  let ?null = "example_options\<lparr>bag := example_bag(''a'' := Num 0, ''b'' := Null, ''c'' := Str [])\<rparr>"
  have 1: "deployContract ?cfg ?falsy example_chain =
      deployFunction ?falsy (Contract ''TestToken1'') (Some [Num 0, Bool False, Str []]) None
        example_chain"
    using deployContract_presence_tests [of ?falsy ?cfg "[''a'', ''b'', ''c'']" example_chain]
    by (simp add: example_token_def example_config_def example_options_def example_bag_def)
  have 2: "\<exists>a. fst (deployContract ?cfg ?null example_chain) =
      Inl (MissingDeploymentArgument a ''TestToken1'')"
    using deployContract_presence_tests [of ?null ?cfg "[''a'', ''b'', ''c'']" example_chain]
    by (simp add: example_token_def example_config_def example_options_def example_bag_def)
  have 3: "deployContract example_token (example_options\<lparr>bag := example_bag(''TestToken1'' := Num 0)\<rparr>)
     example_chain = (Inl (ContractNotFound ''TestToken1''), example_chain)"
    using deployContract_presence_tests [of "example_options\<lparr>bag := example_bag(''TestToken1'' := Num 0)\<rparr>"
        example_token _ example_chain]
    by (simp add: example_token_def example_config_def)
  have 4: "deployContract example_token (example_options\<lparr>bag := example_bag(''TestToken1'' := Str [])\<rparr>)
     example_chain = (Inl (ContractNotFound ''TestToken1''), example_chain)"
    using deployContract_presence_tests [of "example_options\<lparr>bag := example_bag(''TestToken1'' := Str [])\<rparr>"
        example_token _ example_chain]
    by (simp add: example_token_def example_config_def)
  show ?thesis
    using 1 2 3 4 by (simp add: deployFunction_Contract example_chain_def)
qed

section \<open>The network registry is an exact lookup\<close>

text \<open>
  Claim C8. \<^verbatim>\<open>getNetworkDetails\<close> looks a network up by exact match of its name in the
  static table: for every entry of the table, the lookup of its name returns that entry;
  for every name that no entry carries the lookup returns nothing (\<^verbatim>\<open>undefined\<close>),
  without an error; and whatever it returns is an entry of the table with exactly the
  name asked for.
\<close>

theorem getNetworkDetails_exact:
  "(e \<in> set networks \<longrightarrow> getNetworkDetails (name e) = Some e) \<and>
   (n \<notin> name ` set networks \<longrightarrow> getNetworkDetails n = None) \<and>
   (getNetworkDetails n = Some e' \<longrightarrow> e' \<in> set networks \<and> name e' = n)"
proof (intro conjI impI)
  assume "e \<in> set networks"
  moreover have "distinct (map name networks)"
    by (simp add: networks_def)
  ultimately show "getNetworkDetails (name e) = Some e"
    unfolding getNetworkDetails_def by (rule find_by_key)
next
  assume "n \<notin> name ` set networks"
  then show "getNetworkDetails n = None"
    by (auto simp: getNetworkDetails_def find_None_iff)
next
  assume "getNetworkDetails n = Some e'"
  then show "e' \<in> set networks" "name e' = n"
    by (auto simp: getNetworkDetails_def find_Some_iff)
qed

theorem getNetworkDetails_exact_witness:
  "getNetworkDetails ''rinkeby'' = Some \<lparr>name = ''rinkeby'', chainId = 4\<rparr> \<and>
   getNetworkDetails ''rinkeby-'' = None \<and>
   getNetworkDetails ''Rinkeby'' = None \<and>
   getNetworkDetails ''harmonytest'' = Some \<lparr>name = ''harmonytest'', chainId = 1666700000\<rparr>"
proof -
  have a: "\<lparr>name = ''rinkeby'', chainId = 4\<rparr> \<in> set networks"
    and b: "\<lparr>name = ''harmonytest'', chainId = 1666700000\<rparr> \<in> set networks"
    by (simp_all add: networks_def)
  have c: "''rinkeby-'' \<notin> name ` set networks" and d: "''Rinkeby'' \<notin> name ` set networks"
    by (simp_all add: networks_def)
  show ?thesis
    using getNetworkDetails_exact [of "\<lparr>name = ''rinkeby'', chainId = 4\<rparr>" "''rinkeby-''"]
      getNetworkDetails_exact [of "\<lparr>name = ''harmonytest'', chainId = 1666700000\<rparr>" "''Rinkeby''"]
      a b c d
    by simp
qed

section \<open>The off-chain voting installer behind its flag\<close>

text \<open>
  Claim C5. Whenever the \<^verbatim>\<open>offchainVoting\<close> flag of the options is unset (or otherwise
  falsy), \<^verbatim>\<open>configureOffchainVoting\<close> resolves to the all-null result, whatever the other
  options, the DAO, the DAO factory and the extensions are, and it leaves the chain as
  it found it: no call of any kind is issued.
\<close>

theorem configureOffchainVoting_flag_unset:
  "\<not> truthy (bag opts ''offchainVoting'') \<Longrightarrow>
   configureOffchainVoting imp opts d df exts w =
     (Inr \<lparr>snapshotProposalContract = None, handleBadReporterAdapter = None,
           offchainVoting = None\<rparr>, w)"
  by (simp add: configureOffchainVoting_def resolve_def)

theorem configureOffchainVoting_flag_unset_witness:
  "\<not> truthy (bag example_options ''offchainVoting'') \<and>
   configureOffchainVoting example_imported example_options
     \<lparr>instance_configs = None, instance_address = 7\<rparr>
     \<lparr>instance_configs = None, instance_address = 8\<rparr> new_object example_chain =
     (Inr \<lparr>snapshotProposalContract = None, handleBadReporterAdapter = None,
           offchainVoting = None\<rparr>, example_chain)"
proof -
  have flag: "\<not> truthy (bag example_options ''offchainVoting'')"
    by (simp add: example_options_def example_bag_def)
  show ?thesis
    using flag configureOffchainVoting_flag_unset [OF flag] by simp
qed

section \<open>Factories and their generated extension\<close>

lemma reduce_then_append:
  "reduce_then body (xs @ ys) s w =
     (case reduce_then body xs s w of
        (Inl e, w') \<Rightarrow> (Inl e, w')
      | (Inr s', w') \<Rightarrow> reduce_then body ys s' w')"
  by (induction xs arbitrary: s w) (auto split: prod.splits sum.splits)

lemma createFactories_from_append:
  "createFactories_from opts (xs @ ys) facs w =
     (case createFactories_from opts xs facs w of
        (Inl e, w') \<Rightarrow> (Inl e, w')
      | (Inr facs', w') \<Rightarrow> createFactories_from opts ys facs' w')"
  unfolding createFactories_from_def by (rule reduce_then_append)

lemma createFactories_from_Cons:
  "createFactories_from opts (f # rest) facs w =
     (case createFactories_deploy opts f w of
        (Inl e, w') \<Rightarrow> (Inl e, w')
      | (Inr factory, w') \<Rightarrow>
          then_io (register factory facs) (createFactories_from opts rest) w')"
  by (auto simp: createFactories_from_def then_io_def split: prod.splits sum.splits)

lemma createFactories_deploy_unresolved:
  assumes "\<forall>c \<in> set (contractConfigs opts). Some (config_id c) \<noteq> generatesExtensionId f"
  shows "createFactories_deploy opts f w =
           (Inl (if truthy (bag opts (config_name f))
                 then MissingExtensionConfig (generatesExtensionId f)
                 else MissingFactoryContract (config_name f)), w)"
proof -
  have "find (\<lambda>c. Some (config_id c) = generatesExtensionId f) (contractConfigs opts) = None"
    using assms by (auto simp: find_None_iff)
  then show ?thesis
    by (simp add: createFactories_deploy_def throw_def)
qed

lemma createFactories_deploy_resolved:
  assumes "truthy (bag opts (config_name f))"
    and "find (\<lambda>c. Some (config_id c) = generatesExtensionId f) (contractConfigs opts) = Some ext"
    and "truthy (bag opts (config_name ext))"
  shows "createFactories_deploy opts f w =
           deployFunction opts (bag opts (config_name f)) (Some [bag opts (config_name ext)]) None w"
  using assms by (simp add: createFactories_deploy_def)

text \<open>
  Claim C3. Take an enabled, non-skipped factory descriptor of the table. If its
  \<^verbatim>\<open>generatesExtensionId\<close> is the id of no descriptor of the table, \<^verbatim>\<open>createFactories\<close>
  fails: once the factories before it are deployed, it fails with a configuration error
  of that factory (the missing generated-extension descriptor or, when even the
  factory's contract is not in the bag, the missing factory contract), and the chain is
  left as those earlier factories left it, so no call is issued for this factory or
  after it; if an earlier factory failed, the run has stopped there. If the link
  resolves and both contracts are in the bag, then, once the factories before it are
  deployed, the deploy primitive is invoked for the factory's contract with exactly one
  constructor argument, the contract of the resolved extension descriptor, and only
  its result is registered and followed by the remaining factories.
\<close>

theorem createFactories_generated_extension_link:
  "(filter (\<lambda>cfg. \<not> skipAutoDeploy cfg)
      (filter (\<lambda>cfg. enabled cfg)
         (filter (\<lambda>cfg. config_type cfg = Factory) (contractConfigs opts))) = pre @ f # post \<and>
    (\<forall>c \<in> set (contractConfigs opts). Some (config_id c) \<noteq> generatesExtensionId f) \<longrightarrow>
      createFactories opts w =
        (case createFactories_from opts pre new_object w of
           (Inl e, w1) \<Rightarrow> (Inl e, w1)
         | (Inr deployed, w1) \<Rightarrow>
             (Inl (if truthy (bag opts (config_name f))
                   then MissingExtensionConfig (generatesExtensionId f)
                   else MissingFactoryContract (config_name f)), w1))) \<and>
   (filter (\<lambda>cfg. \<not> skipAutoDeploy cfg)
      (filter (\<lambda>cfg. enabled cfg)
         (filter (\<lambda>cfg. config_type cfg = Factory) (contractConfigs opts))) = pre @ f # post \<and>
    truthy (bag opts (config_name f)) \<and>
    find (\<lambda>c. Some (config_id c) = generatesExtensionId f) (contractConfigs opts) = Some ext \<and>
    truthy (bag opts (config_name ext)) \<longrightarrow>
      createFactories opts w =
        (case createFactories_from opts pre new_object w of
           (Inl e, w1) \<Rightarrow> (Inl e, w1)
         | (Inr deployed, w1) \<Rightarrow>
             (case deployFunction opts (bag opts (config_name f))
                     (Some [bag opts (config_name ext)]) None w1 of
                (Inl e, w2) \<Rightarrow> (Inl e, w2)
              | (Inr factory, w2) \<Rightarrow>
                  then_io (register factory deployed) (createFactories_from opts post) w2)))"
  by (auto simp: createFactories_def createFactories_from_append createFactories_from_Cons
      createFactories_deploy_unresolved createFactories_deploy_resolved
      split: prod.splits sum.splits)

lemmas run_simps =
  then_io_def resolve_def throw_def chain_call_def deployFunction_def embedConfigs_def
  register_def with_configs_def createFactories_from_def createFactories_deploy_def

theorem createFactories_generated_extension_link_witness:
  "fst (createFactories example_broken_options example_chain) =
     Inl (MissingExtensionConfig (Some ''nft'')) \<and>
   calls (snd (createFactories example_broken_options example_chain)) =
     [(Deploy ''BankFactory'' (Some [Contract ''BankExtension'']) None, Done)]"
proof -
  let ?A = "example_broken_table ! 0" and ?B = "example_broken_table ! 2"
  have split: "filter (\<lambda>cfg. \<not> skipAutoDeploy cfg)
      (filter (\<lambda>cfg. enabled cfg)
         (filter (\<lambda>cfg. config_type cfg = Factory) (contractConfigs example_broken_options))) =
      [?A] @ ?B # []"
    by (simp add: example_broken_options_def example_broken_table_def example_config_def)
  have missing: "\<forall>c \<in> set (contractConfigs example_broken_options).
      Some (config_id c) \<noteq> generatesExtensionId ?B"
    by (simp add: example_broken_options_def example_broken_table_def example_config_def)
  have split': "filter (\<lambda>cfg. \<not> skipAutoDeploy cfg)
      (filter (\<lambda>cfg. enabled cfg)
         (filter (\<lambda>cfg. config_type cfg = Factory) (contractConfigs example_broken_options))) =
      [] @ ?A # [?B]"
    using split by simp
  have link: "truthy (bag example_broken_options (config_name ?A)) \<and>
      find (\<lambda>c. Some (config_id c) = generatesExtensionId ?A)
        (contractConfigs example_broken_options) = Some (example_broken_table ! 1) \<and>
      truthy (bag example_broken_options (config_name (example_broken_table ! 1)))"
    by (simp add: example_broken_options_def example_broken_table_def example_config_def
        example_bag_def)
  have first: "createFactories_from example_broken_options [?A] new_object example_chain =
      (Inr \<lparr>own = [(''bankExtFactory'', \<lparr>configs = ?A, address = 100\<rparr>)], prototype = None\<rparr>,
       example_chain\<lparr>calls := [(Deploy ''BankFactory'' (Some [Contract ''BankExtension'']) None, Done)]\<rparr>)"
    by (simp add: run_simps assign_def new_object_def example_broken_options_def
        example_broken_table_def example_config_def example_bag_def example_chain_def)
  have unresolved: "createFactories example_broken_options example_chain =
      (Inl (MissingExtensionConfig (Some ''nft'')),
       example_chain\<lparr>calls := [(Deploy ''BankFactory'' (Some [Contract ''BankExtension'']) None, Done)]\<rparr>)"
    using createFactories_generated_extension_link
      [where opts = example_broken_options and pre = "[?A]" and f = ?B and post = "[]"
         and w = example_chain] split missing
    by (simp add: first)
      (simp add: example_broken_options_def example_broken_table_def example_config_def)
  have resolved: "createFactories example_broken_options example_chain =
      (case deployFunction example_broken_options (Contract ''BankFactory'')
              (Some [Contract ''BankExtension'']) None example_chain of
         (Inl e, w2) \<Rightarrow> (Inl e, w2)
       | (Inr factory, w2) \<Rightarrow>
           then_io (register factory new_object)
             (createFactories_from example_broken_options [?B]) w2)"
    using createFactories_generated_extension_link
      [where opts = example_broken_options and pre = "[]" and f = ?A and post = "[?B]"
         and w = example_chain and ext = "example_broken_table ! 1"] split' link
    by (simp add: createFactories_from_def resolve_def)
      (simp add: example_broken_options_def example_broken_table_def example_config_def
        example_bag_def)
  show ?thesis
    using unresolved resolved by simp
qed

section \<open>DAO parameter configuration\<close>

lemma in_sequence_append:
  "in_sequence (xs @ ys) w =
     (case in_sequence xs w of
        (Inl e, w') \<Rightarrow> (Inl e, w')
      | (Inr _, w') \<Rightarrow> in_sequence ys w')"
proof (induction xs arbitrary: w)
  case Nil
  then show ?case by simp
next
  case (Cons x xs)
  then show ?case
    by (cases x) (auto split: prod.splits sum.splits)
qed

lemma reduce_then_in_sequence:
  assumes "\<And>x w. body x () w = in_sequence (plan x) w"
  shows "reduce_then body xs () w = in_sequence (concat (map plan xs)) w"
proof (induction xs arbitrary: w)
  case Nil
  then show ?case by simp
next
  case (Cons x xs)
  then show ?case
    by (auto simp: assms in_sequence_append split: prod.splits sum.splits)
qed

lemma reduce_then_skip:
  assumes "\<And>x. x \<in> set xs \<Longrightarrow> \<not> P x \<Longrightarrow> plan x = []"
  shows "concat (map plan (filter P xs)) = concat (map plan xs)"
  using assms by (induction xs) auto

lemma configureAdaptersWithDAOParameters_in_sequence:
  "configureAdaptersWithDAOParameters imp exts adps opts w =
     in_sequence (parameter_steps imp exts adps opts) w"
proof -
  let ?step = "\<lambda>adapter group.
      case map_throw (\<lambda>configName. readConfigValue imp exts opts configName
                         (config_name (configs adapter))) group of
        Inl e \<Rightarrow> Inl e
      | Inr resolved \<Rightarrow>
          Inr (Adapter_configureDao (address adapter) resolved (bag opts ''owner''))"
  let ?groups = "\<lambda>adapter. case daoConfigs (configs adapter) of None \<Rightarrow> [] | Some groups \<Rightarrow> groups"
  let ?plan = "\<lambda>adapter. map (?step adapter) (?groups adapter)"
  let ?eligible = "filter (\<lambda>a. enabled (configs a) \<and> \<not> skipAutoDeploy (configs a)) (Object_values (own adps))"
  let ?P = "\<lambda>a. case daoConfigs (configs a) of None \<Rightarrow> False | Some groups \<Rightarrow> length groups > 0"
  have inner: "reduce_then
        (\<lambda>configEntry _.
           case map_throw (\<lambda>configName. readConfigValue imp exts opts configName
                              (config_name (configs adapter))) configEntry of
             Inl e \<Rightarrow> throw e
           | Inr configValues \<Rightarrow>
               then_io (chain_call (Adapter_configureDao (address adapter) configValues
                                      (bag opts ''owner'')))
                 (\<lambda>_. resolve ()))
        gs () w' = in_sequence (concat (map (\<lambda>g. [?step adapter g]) gs)) w'" for adapter gs w'
    by (rule reduce_then_in_sequence)
      (auto simp: throw_def then_io_def resolve_def split: sum.splits prod.splits)
  have flat: "concat (map (\<lambda>g. [f g]) gs) = map f gs" for f :: "string list \<Rightarrow> error + call" and gs
    by (induction gs) auto
  have "configureAdaptersWithDAOParameters imp exts adps opts w =
          in_sequence (concat (map ?plan (filter ?P ?eligible))) w"
    unfolding configureAdaptersWithDAOParameters_def Let_def
    by (subst reduce_then_in_sequence [where plan = ?plan])
      (simp_all add: inner flat conj_commute)
  also have "concat (map ?plan (filter ?P ?eligible)) = concat (map ?plan ?eligible)"
    by (rule reduce_then_skip) (auto split: option.splits)
  finally show ?thesis
    by (simp add: parameter_steps_def)
qed

text \<open>
  Claim C6. During DAO parameter configuration a parameter name is resolved by first
  checking whether it is one of the known extension identifiers: if so, the value is the
  address of the deployed extension with that id, and the resolution fails when no such
  extension is deployed; otherwise the name is looked up in the options bag, and the
  resolution fails when the bag holds nothing truthy under it. A failed resolution is the
  error carrying the parameter name and the name of the owning contract. The whole
  operation is the sequence of steps of \<open>parameter_steps\<close>, run one after the other until
  the first failure: adapters in the order of the dictionary, the groups of each adapter
  in their order, one \<^verbatim>\<open>configureDao\<close> call per group with the resolved values.
\<close>

theorem dao_parameters_resolution_and_order:
  "(configName \<in> set (Object_values (extensionsIdsMap imp)) \<longrightarrow>
      readConfigValue imp exts opts configName contractName =
        (case find (\<lambda>e. config_id (configs e) = configName) (Object_values (own exts)) of
           None \<Rightarrow> Inl (DaoParameterError configName contractName)
         | Some extension \<Rightarrow> Inr (Addr (address extension)))) \<and>
   (configName \<notin> set (Object_values (extensionsIdsMap imp)) \<longrightarrow>
      readConfigValue imp exts opts configName contractName =
        (if truthy (bag opts configName) then Inr (bag opts configName)
         else Inl (DaoParameterError configName contractName))) \<and>
   configureAdaptersWithDAOParameters imp exts adps opts w =
     in_sequence (parameter_steps imp exts adps opts) w"
  by (simp add: readConfigValue_def configureAdaptersWithDAOParameters_in_sequence)

lemmas object_simps =
  Object_values_def Object_keys_def own_properties_def array_index_def index_rank_def
  digits_def property_def

theorem dao_parameters_resolution_and_order_witness:
  "readConfigValue example_imported example_extensions
     (example_options\<lparr>bag := example_bag(''bank'' := Num 5)\<rparr>) ''bank'' ''VotingContract'' =
     Inr (Addr 106) \<and>
   readConfigValue example_imported new_object
     (example_options\<lparr>bag := example_bag(''bank'' := Num 5)\<rparr>) ''bank'' ''VotingContract'' =
     Inl (DaoParameterError ''bank'' ''VotingContract'') \<and>
   readConfigValue example_imported example_extensions example_options ''supply'' ''VotingContract'' =
     Inl (DaoParameterError ''supply'' ''VotingContract'') \<and>
   configureAdaptersWithDAOParameters example_imported example_extensions example_adapters
     (example_options\<lparr>bag := example_bag(''daoAddress'' := Addr 102)\<rparr>) example_chain =
     (Inr (), example_chain\<lparr>calls :=
        [(Adapter_configureDao 109 [Addr 102, Addr 106] (Addr 1), Done)]\<rparr>)"
proof -
  let ?o5 = "example_options\<lparr>bag := example_bag(''bank'' := Num 5)\<rparr>"
  let ?od = "example_options\<lparr>bag := example_bag(''daoAddress'' := Addr 102)\<rparr>"
  have known: "''bank'' \<in> set (Object_values (extensionsIdsMap example_imported))"
    and unknown: "''supply'' \<notin> set (Object_values (extensionsIdsMap example_imported))"
    by (simp_all add: example_imported_def object_simps)
  have 1: "readConfigValue example_imported example_extensions ?o5 ''bank'' ''VotingContract'' =
      Inr (Addr 106)"
    using known dao_parameters_resolution_and_order
      [where imp = example_imported and exts = example_extensions and opts = ?o5
         and configName = "''bank''" and contractName = "''VotingContract''"]
    by (simp add: example_extensions_def example_table_def example_config_def object_simps)
  have 2: "readConfigValue example_imported new_object ?o5 ''bank'' ''VotingContract'' =
      Inl (DaoParameterError ''bank'' ''VotingContract'')"
    using known dao_parameters_resolution_and_order
      [where imp = example_imported and exts = new_object and opts = ?o5
         and configName = "''bank''" and contractName = "''VotingContract''"]
    by (simp add: object_simps new_object_def)
  have 3: "readConfigValue example_imported example_extensions example_options ''supply''
      ''VotingContract'' = Inl (DaoParameterError ''supply'' ''VotingContract'')"
    using unknown dao_parameters_resolution_and_order
      [where imp = example_imported and exts = example_extensions and opts = example_options
         and configName = "''supply''" and contractName = "''VotingContract''"]
    by (simp add: example_options_def example_bag_def)
  have steps: "parameter_steps example_imported example_extensions example_adapters ?od =
      [Inr (Adapter_configureDao 109 [Addr 102, Addr 106] (Addr 1))]"
    by (simp add: parameter_steps_def readConfigValue_def example_imported_def
        example_extensions_def example_adapters_def example_table_def example_config_def
        example_options_def example_bag_def object_simps)
  have 4: "configureAdaptersWithDAOParameters example_imported example_extensions example_adapters
      ?od example_chain =
      (Inr (), example_chain\<lparr>calls :=
        [(Adapter_configureDao 109 [Addr 102, Addr 106] (Addr 1), Done)]\<rparr>)"
    using dao_parameters_resolution_and_order
      [where imp = example_imported and exts = example_extensions and adps = example_adapters
         and opts = ?od and w = example_chain]
    by (simp add: steps chain_call_def example_chain_def)
  show ?thesis
    using 1 2 3 4 by simp
qed

section \<open>The phases of a completed deployment\<close>

text \<open>
  A run of \<^verbatim>\<open>deployDao\<close> that resolves has gone through every phase in turn, each one
  resolving: the intermediate results and chains exist, and the result is assembled
  from them.
\<close>

lemma then_io_InrE:
  assumes "then_io m f w = (Inr y, w'')"
  obtains x w' where "m w = (Inr x, w')" and "f x w' = (Inr y, w'')"
  using assms by (auto simp: then_io_def split: prod.splits sum.splits)

lemma deployDao_success:
  assumes "deployDao imp opts0 w = (Inr r, w')"
  shows "\<exists>d df nm w1 facs w2 exts w3 adps w4 w5 vh w6 utl w7 tst w8.
    cloneDao (cloneDao_options opts0) w = (Inr (d, df, nm), w1) \<and>
    createFactories (deployDao_options imp opts0 (instance_address d)) w1 = (Inr facs, w2) \<and>
    createExtensions d facs (deployDao_options imp opts0 (instance_address d)) w2 = (Inr exts, w3) \<and>
    createAdapters (deployDao_options imp opts0 (instance_address d)) w3 = (Inr adps, w4) \<and>
    configureDao imp (bag (deployDao_options imp opts0 (instance_address d)) ''owner'') d df exts adps
      (deployDao_options imp opts0 (instance_address d)) w4 = (Inr (), w5) \<and>
    configureOffchainVoting imp (deployDao_options imp opts0 (instance_address d)) d df exts w5 =
      (Inr vh, w6) \<and>
    createUtilContracts (deployDao_options imp opts0 (instance_address d)) w6 = (Inr utl, w7) \<and>
    createTestContracts (deployDao_options imp opts0 (instance_address d)) w7 = (Inr tst, w8) \<and>
    finalizeDao (deployDao_options imp opts0 (instance_address d)) d w8 = (Inr (), w') \<and>
    r = \<lparr>dao = d,
         adapters = (case offchainVoting vh of
                       None \<Rightarrow> adps
                     | Some voting \<Rightarrow> assign (config_alias (configs voting)) voting adps),
         extensions = exts, testContracts = tst, utilContracts = utl, votingHelpers = vh,
         factories = spread_with_daoFactory facs df\<rparr>"
proof -
  from assms obtain cloned w1 where
    1: "cloneDao (cloneDao_options opts0) w = (Inr cloned, w1)"
    and rest: "(let theDao = fst cloned;
         daoFactory = fst (snd cloned);
         opts = deployDao_options imp opts0 (instance_address theDao)
     in
     then_io (createFactories opts)
       (\<lambda>createdFactories.
     then_io (createExtensions theDao createdFactories opts)
       (\<lambda>createdExtensions.
     then_io (createAdapters opts)
       (\<lambda>createdAdapters.
     then_io
       (configureDao imp (bag opts ''owner'') theDao daoFactory createdExtensions
          createdAdapters opts)
       (\<lambda>_.
     then_io (configureOffchainVoting imp opts theDao daoFactory createdExtensions)
       (\<lambda>helpers.
     let allAdapters =
           (case offchainVoting helpers of
              None \<Rightarrow> createdAdapters
            | Some voting \<Rightarrow> assign (config_alias (configs voting)) voting createdAdapters)
     in
     then_io (createUtilContracts opts)
       (\<lambda>createdUtilContracts.
     then_io (createTestContracts opts)
       (\<lambda>createdTestContracts.
     then_io (finalizeDao opts theDao)
       (\<lambda>_.
     resolve
       \<lparr>dao = theDao,
        adapters = allAdapters,
        extensions = createdExtensions,
        testContracts = createdTestContracts,
        utilContracts = createdUtilContracts,
        votingHelpers = helpers,
        factories =
          spread_with_daoFactory createdFactories daoFactory\<rparr>))))))))) w1
      = (Inr r, w')"
    unfolding deployDao_def by (erule then_io_InrE)
  obtain d df nm where cloned: "cloned = (d, df, nm)"
    by (cases cloned) auto
  let ?opts = "deployDao_options imp opts0 (instance_address d)"
  from rest obtain facs w2 where 2: "createFactories ?opts w1 = (Inr facs, w2)"
    and rest: "then_io (createExtensions d facs ?opts)
       (\<lambda>createdExtensions.
     then_io (createAdapters ?opts)
       (\<lambda>createdAdapters.
     then_io
       (configureDao imp (bag ?opts ''owner'') d df createdExtensions
          createdAdapters ?opts)
       (\<lambda>_.
     then_io (configureOffchainVoting imp ?opts d df createdExtensions)
       (\<lambda>helpers.
     let allAdapters =
           (case offchainVoting helpers of
              None \<Rightarrow> createdAdapters
            | Some voting \<Rightarrow> assign (config_alias (configs voting)) voting createdAdapters)
     in
     then_io (createUtilContracts ?opts)
       (\<lambda>createdUtilContracts.
     then_io (createTestContracts ?opts)
       (\<lambda>createdTestContracts.
     then_io (finalizeDao ?opts d)
       (\<lambda>_.
     resolve
       \<lparr>dao = d,
        adapters = allAdapters,
        extensions = createdExtensions,
        testContracts = createdTestContracts,
        utilContracts = createdUtilContracts,
        votingHelpers = helpers,
        factories =
          spread_with_daoFactory facs df\<rparr>))))))) w2
      = (Inr r, w')"
    unfolding cloned Let_def fst_conv snd_conv by (erule then_io_InrE)
  from rest obtain exts w3 where 3: "createExtensions d facs ?opts w2 = (Inr exts, w3)"
    and rest: "then_io (createAdapters ?opts)
       (\<lambda>createdAdapters.
     then_io
       (configureDao imp (bag ?opts ''owner'') d df exts createdAdapters ?opts)
       (\<lambda>_.
     then_io (configureOffchainVoting imp ?opts d df exts)
       (\<lambda>helpers.
     let allAdapters =
           (case offchainVoting helpers of
              None \<Rightarrow> createdAdapters
            | Some voting \<Rightarrow> assign (config_alias (configs voting)) voting createdAdapters)
     in
     then_io (createUtilContracts ?opts)
       (\<lambda>createdUtilContracts.
     then_io (createTestContracts ?opts)
       (\<lambda>createdTestContracts.
     then_io (finalizeDao ?opts d)
       (\<lambda>_.
     resolve
       \<lparr>dao = d,
        adapters = allAdapters,
        extensions = exts,
        testContracts = createdTestContracts,
        utilContracts = createdUtilContracts,
        votingHelpers = helpers,
        factories =
          spread_with_daoFactory facs df\<rparr>)))))) w3
      = (Inr r, w')"
    by (erule then_io_InrE)
  from rest obtain adps w4 where 4: "createAdapters ?opts w3 = (Inr adps, w4)"
    and rest: "then_io
       (configureDao imp (bag ?opts ''owner'') d df exts adps ?opts)
       (\<lambda>_.
     then_io (configureOffchainVoting imp ?opts d df exts)
       (\<lambda>helpers.
     let allAdapters =
           (case offchainVoting helpers of
              None \<Rightarrow> adps
            | Some voting \<Rightarrow> assign (config_alias (configs voting)) voting adps)
     in
     then_io (createUtilContracts ?opts)
       (\<lambda>createdUtilContracts.
     then_io (createTestContracts ?opts)
       (\<lambda>createdTestContracts.
     then_io (finalizeDao ?opts d)
       (\<lambda>_.
     resolve
       \<lparr>dao = d,
        adapters = allAdapters,
        extensions = exts,
        testContracts = createdTestContracts,
        utilContracts = createdUtilContracts,
        votingHelpers = helpers,
        factories =
          spread_with_daoFactory facs df\<rparr>))))) w4
      = (Inr r, w')"
    by (erule then_io_InrE)
  from rest obtain u5 w5 where 5: "configureDao imp (bag ?opts ''owner'') d df exts adps ?opts w4 = (Inr u5, w5)"
    and rest: "then_io (configureOffchainVoting imp ?opts d df exts)
       (\<lambda>helpers.
     let allAdapters =
           (case offchainVoting helpers of
              None \<Rightarrow> adps
            | Some voting \<Rightarrow> assign (config_alias (configs voting)) voting adps)
     in
     then_io (createUtilContracts ?opts)
       (\<lambda>createdUtilContracts.
     then_io (createTestContracts ?opts)
       (\<lambda>createdTestContracts.
     then_io (finalizeDao ?opts d)
       (\<lambda>_.
     resolve
       \<lparr>dao = d,
        adapters = allAdapters,
        extensions = exts,
        testContracts = createdTestContracts,
        utilContracts = createdUtilContracts,
        votingHelpers = helpers,
        factories =
          spread_with_daoFactory facs df\<rparr>)))) w5
      = (Inr r, w')"
    by (erule then_io_InrE)
  from rest obtain vh w6 where 6: "configureOffchainVoting imp ?opts d df exts w5 = (Inr vh, w6)"
    and rest: "then_io (createUtilContracts ?opts)
       (\<lambda>createdUtilContracts.
     then_io (createTestContracts ?opts)
       (\<lambda>createdTestContracts.
     then_io (finalizeDao ?opts d)
       (\<lambda>_.
     resolve
       \<lparr>dao = d,
        adapters = (case offchainVoting vh of
              None \<Rightarrow> adps
            | Some voting \<Rightarrow> assign (config_alias (configs voting)) voting adps),
        extensions = exts,
        testContracts = createdTestContracts,
        utilContracts = createdUtilContracts,
        votingHelpers = vh,
        factories =
          spread_with_daoFactory facs df\<rparr>))) w6
      = (Inr r, w')"
    unfolding Let_def by (erule then_io_InrE)
  from rest obtain utl w7 where 7: "createUtilContracts ?opts w6 = (Inr utl, w7)"
    and rest: "then_io (createTestContracts ?opts)
       (\<lambda>createdTestContracts.
     then_io (finalizeDao ?opts d)
       (\<lambda>_.
     resolve
       \<lparr>dao = d,
        adapters = (case offchainVoting vh of
              None \<Rightarrow> adps
            | Some voting \<Rightarrow> assign (config_alias (configs voting)) voting adps),
        extensions = exts,
        testContracts = createdTestContracts,
        utilContracts = utl,
        votingHelpers = vh,
        factories =
          spread_with_daoFactory facs df\<rparr>)) w7
      = (Inr r, w')"
    by (erule then_io_InrE)
  from rest obtain tst w8 where 8: "createTestContracts ?opts w7 = (Inr tst, w8)"
    and rest: "then_io (finalizeDao ?opts d)
       (\<lambda>_.
     resolve
       \<lparr>dao = d,
        adapters = (case offchainVoting vh of
              None \<Rightarrow> adps
            | Some voting \<Rightarrow> assign (config_alias (configs voting)) voting adps),
        extensions = exts,
        testContracts = tst,
        utilContracts = utl,
        votingHelpers = vh,
        factories =
          spread_with_daoFactory facs df\<rparr>) w8
      = (Inr r, w')"
    by (erule then_io_InrE)
  from rest obtain u9 w9 where 9: "finalizeDao ?opts d w8 = (Inr u9, w9)"
    and rest: "resolve
       \<lparr>dao = d,
        adapters = (case offchainVoting vh of
              None \<Rightarrow> adps
            | Some voting \<Rightarrow> assign (config_alias (configs voting)) voting adps),
        extensions = exts,
        testContracts = tst,
        utilContracts = utl,
        votingHelpers = vh,
        factories =
          spread_with_daoFactory facs df\<rparr> w9
      = (Inr r, w')"
    by (erule then_io_InrE)
  from rest have "w9 = w'" and r: "r = \<lparr>dao = d,
        adapters = (case offchainVoting vh of
              None \<Rightarrow> adps
            | Some voting \<Rightarrow> assign (config_alias (configs voting)) voting adps),
        extensions = exts,
        testContracts = tst,
        utilContracts = utl,
        votingHelpers = vh,
        factories =
          spread_with_daoFactory facs df\<rparr>"
    by (simp_all add: resolve_def)
  from 1 have c1: "cloneDao (cloneDao_options opts0) w = (Inr (d, df, nm), w1)"
    by (simp add: cloned)
  from 5 have c5: "configureDao imp (bag ?opts ''owner'') d df exts adps ?opts w4 = (Inr (), w5)"
    by simp
  from 9 \<open>w9 = w'\<close> have c9: "finalizeDao ?opts d w8 = (Inr (), w')"
    by simp
  show ?thesis
    by (intro exI conjI) (rule c1 2 3 4 c5 6 7 8 c9 r)+
qed

section \<open>The descriptors of deployed contracts\<close>

lemma insort_key_map:
  "insort_key f (g x) (map g xs) = map g (insort_key (\<lambda>y. f (g y)) x xs)"
  by (induction xs) auto

lemma sort_key_map:
  "sort_key f (map g xs) = map g (sort_key (\<lambda>y. f (g y)) xs)"
  by (induction xs) (auto simp: insort_key_map)

lemma own_properties_map:
  "own_properties (map (\<lambda>p. (fst p, f (snd p))) m) =
   map (\<lambda>p. (fst p, f (snd p))) (own_properties m)"
proof -
  have rank: "(\<lambda>y. index_rank (fst y, f (snd y))) = index_rank"
    by (rule ext) (simp add: index_rank_def)
  show ?thesis
    by (simp add: own_properties_def filter_map sort_key_map rank o_def)
qed

lemma Object_values_shape:
  "Object_values (own (shape m)) = map configs (Object_values (own m))"
  by (simp add: Object_values_def shape_def own_properties_map)

lemma put_map:
  "map (\<lambda>p. (fst p, f (snd p))) (put k v m) = put k (f v) (map (\<lambda>p. (fst p, f (snd p))) m)"
  by (induction m) auto

lemma shape_assign: "shape (assign k h m) = assign k (configs h) (shape m)"
  by (simp add: shape_def assign_def put_map)

lemma shape_new_object: "shape new_object = new_object"
  by (simp add: shape_def new_object_def)

lemma keys_shape: "map fst (own (shape m)) = map fst (own m)"
  by (simp add: shape_def o_def)

lemma deployFunction_attached:
  "deployFunction opts c args s w = (Inr i, w') \<Longrightarrow> instance_configs i = attached opts c"
  by (cases c)
    (auto simp: deployFunction_def attached_def embedConfigs_def throw_def then_io_def
      chain_call_def resolve_def split: if_splits)

lemma deployContract_attached:
  assumes "deployContract cfg opts w = (Inr i, w')"
  shows "instance_configs i = attached opts (bag opts (config_name cfg))"
  using assms deployFunction_attached
  by (auto simp: deployContract_def throw_def Let_def
      split: if_splits option.splits list.splits sum.splits)

lemma createFactories_deploy_attached:
  assumes "createFactories_deploy opts cfg w = (Inr i, w')"
  shows "instance_configs i = attached opts (bag opts (config_name cfg))"
  using assms deployFunction_attached
  by (auto simp: createFactories_deploy_def throw_def Let_def
      split: if_splits option.splits)

lemma register_shape:
  assumes "register i d w = (Inr d', w')"
  shows "\<exists>c. instance_configs i = Some c \<and> shape d' = assign (config_alias c) c (shape d)"
  using assms
  by (auto simp: register_def with_configs_def then_io_def throw_def resolve_def shape_assign
      split: option.splits)

lemma register_loop_shape:
  assumes tag: "\<And>x w i w'. m x w = (Inr i, w') \<Longrightarrow> instance_configs i = tag x"
    and run: "reduce_then (\<lambda>x d. then_io (m x) (\<lambda>i. register i d)) xs d w = (Inr d', w')"
  shows "shape d' = registered tag xs (shape d) \<and> (\<forall>x \<in> set xs. tag x \<noteq> None)"
  using run
proof (induction xs arbitrary: d w)
  case Nil
  then show ?case by (simp add: registered_def)
next
  case (Cons x xs)
  from Cons.prems obtain d1 w1 where
    step: "then_io (m x) (\<lambda>i. register i d) w = (Inr d1, w1)"
    and rest: "reduce_then (\<lambda>x d. then_io (m x) (\<lambda>i. register i d)) xs d1 w1 = (Inr d', w')"
    by (auto split: prod.splits sum.splits)
  from step obtain i w0 where i: "m x w = (Inr i, w0)" and reg: "register i d w0 = (Inr d1, w1)"
    by (rule then_io_InrE)
  from register_shape [OF reg] tag [OF i]
  obtain c where c: "tag x = Some c" "shape d1 = assign (config_alias c) c (shape d)"
    by auto
  from Cons.IH [OF rest] c show ?case
    by (simp add: registered_def)
qed

lemma deploy_loop_shape:
  assumes "reduce_then (\<lambda>cfg d. then_io (deployContract cfg opts) (\<lambda>i. register i d)) cfgs
             new_object w = (Inr d, w')"
  shows "shape d =
           registered (\<lambda>cfg. attached opts (bag opts (config_name cfg))) cfgs new_object \<and>
         (\<forall>cfg \<in> set cfgs. attached opts (bag opts (config_name cfg)) \<noteq> None)"
proof -
  have tag: "\<And>x w i w'. deployContract x opts w = (Inr i, w') \<Longrightarrow>
      instance_configs i = attached opts (bag opts (config_name x))"
    by (rule deployContract_attached)
  from register_loop_shape
    [where m = "\<lambda>cfg. deployContract cfg opts"
       and tag = "\<lambda>cfg. attached opts (bag opts (config_name cfg))", OF tag assms]
  show ?thesis
    by (simp add: shape_new_object)
qed

lemma createFactories_shape:
  assumes "createFactories opts w = (Inr d, w')"
  shows "shape d =
           registered (\<lambda>cfg. attached opts (bag opts (config_name cfg)))
             (filter (\<lambda>cfg. \<not> skipAutoDeploy cfg)
                (filter (\<lambda>cfg. enabled cfg)
                   (filter (\<lambda>cfg. config_type cfg = Factory) (contractConfigs opts))))
             new_object \<and>
         (\<forall>cfg \<in> set (filter (\<lambda>cfg. \<not> skipAutoDeploy cfg)
                (filter (\<lambda>cfg. enabled cfg)
                   (filter (\<lambda>cfg. config_type cfg = Factory) (contractConfigs opts)))).
            attached opts (bag opts (config_name cfg)) \<noteq> None)"
proof -
  have tag: "\<And>x w i w'. createFactories_deploy opts x w = (Inr i, w') \<Longrightarrow>
      instance_configs i = attached opts (bag opts (config_name x))"
    by (rule createFactories_deploy_attached)
  from register_loop_shape
    [where m = "\<lambda>cfg. createFactories_deploy opts cfg"
       and tag = "\<lambda>cfg. attached opts (bag opts (config_name cfg))",
     OF tag assms [unfolded createFactories_def createFactories_from_def]]
  show ?thesis
    by (simp add: shape_new_object)
qed

lemma createExtension_generated:
  assumes "createExtension d factory opts w = (Inr e, w')"
  shows "generated opts (configs factory) = Some (configs e)"
  using assms
  by (auto simp: createExtension_def generated_def attached_def embedConfigs_def Let_def
      throw_def resolve_def
      elim!: then_io_InrE split: option.splits if_splits jsval.splits)

lemma createExtensions_loop_shape:
  assumes "reduce_then
             (\<lambda>factory exts.
                then_io (createExtension d factory opts)
                  (\<lambda>extension. resolve (assign (config_alias (configs extension)) extension exts)))
             fs exts0 w = (Inr exts, w')"
  shows "shape exts = registered (generated opts) (map configs fs) (shape exts0) \<and>
         (\<forall>f \<in> set fs. generated opts (configs f) \<noteq> None)"
  using assms
proof (induction fs arbitrary: exts0 w)
  case Nil
  then show ?case by (simp add: registered_def)
next
  case (Cons f fs)
  from Cons.prems obtain exts1 w1 where
    step: "then_io (createExtension d f opts)
             (\<lambda>extension. resolve (assign (config_alias (configs extension)) extension exts0)) w
           = (Inr exts1, w1)"
    and rest: "reduce_then
             (\<lambda>factory exts.
                then_io (createExtension d factory opts)
                  (\<lambda>extension. resolve (assign (config_alias (configs extension)) extension exts)))
             fs exts1 w1 = (Inr exts, w')"
    by (auto split: prod.splits sum.splits)
  from step obtain e w0 where e: "createExtension d f opts w = (Inr e, w0)"
    and exts1: "exts1 = assign (config_alias (configs e)) e exts0"
    by (auto elim!: then_io_InrE simp: resolve_def)
  from createExtension_generated [OF e] Cons.IH [OF rest] exts1 show ?case
    by (simp add: registered_def shape_assign)
qed

lemma createExtensions_shape:
  assumes "createExtensions d facs opts w = (Inr exts, w')"
  shows "shape exts =
           registered (generated opts) (Object_values (own (shape facs))) new_object \<and>
         (\<forall>c \<in> set (Object_values (own (shape facs))). generated opts c \<noteq> None)"
  using createExtensions_loop_shape [OF assms [unfolded createExtensions_def]]
  by (simp add: Object_values_shape shape_new_object)

lemma attached_deployDao_options:
  "attached (deployDao_options imp opts0 a) (bag (deployDao_options imp opts0 a) k) =
   attached (deployDao_options imp opts0 b) (bag (deployDao_options imp opts0 b) k)"
  by (simp add: attached_def deployDao_options_def split: jsval.splits)

lemma generated_deployDao_options:
  "generated (deployDao_options imp opts0 a) c = generated (deployDao_options imp opts0 b) c"
proof -
  have cfgs: "contractConfigs (deployDao_options imp opts0 a) =
              contractConfigs (deployDao_options imp opts0 b)"
    by (simp add: deployDao_options_def)
  show ?thesis
    unfolding generated_def cfgs
    by (simp add: attached_deployDao_options [of imp opts0 a _ b] split: option.splits)
qed

lemma contractConfigs_deployDao_options:
  "contractConfigs (deployDao_options imp opts0 a) = contractConfigs opts0"
  by (simp add: deployDao_options_def)

lemma cloneDao_instances:
  assumes "cloneDao opts w = (Inr (d, df, nm), w')"
  shows "instance_configs d = None \<and> instance_configs df = attached opts (bag opts ''DaoFactory'')"
  using assms
  by (auto simp: cloneDao_def Let_def resolve_def throw_def
      elim!: then_io_InrE dest!: deployFunction_attached split: jsval.splits)

lemma configureOffchainVoting_flag_unset_aux:
  "\<not> truthy (bag opts ''offchainVoting'') \<Longrightarrow>
   configureOffchainVoting imp opts d df exts w =
     (Inr \<lparr>snapshotProposalContract = None, handleBadReporterAdapter = None,
           offchainVoting = None\<rparr>, w)"
  by (simp add: configureOffchainVoting_def resolve_def)

lemma configureOffchainVoting_helpers:
  assumes "configureOffchainVoting imp opts d df exts w = (Inr vh, w')"
  shows "(\<not> truthy (bag opts ''offchainVoting'') \<longrightarrow>
            vh = \<lparr>snapshotProposalContract = None, handleBadReporterAdapter = None,
                  offchainVoting = None\<rparr>) \<and>
         (truthy (bag opts ''offchainVoting'') \<longrightarrow>
            (\<exists>s h v. vh = \<lparr>snapshotProposalContract = Some s, handleBadReporterAdapter = Some h,
                            offchainVoting = Some v\<rparr> \<and>
               instance_configs s = attached opts (bag opts ''SnapshotProposalContract'') \<and>
               instance_configs h = attached opts (bag opts ''KickBadReporterAdapter'') \<and>
               Some (configs v) = attached opts (bag opts ''OffchainVotingContract'')))"
proof (cases "truthy (bag opts ''offchainVoting'')")
  case False
  with assms show ?thesis
    by (simp add: configureOffchainVoting_flag_unset_aux)
next
  case True
  with assms show ?thesis
    unfolding configureOffchainVoting_def Let_def
    by (auto simp: resolve_def throw_def with_configs_def
        elim!: then_io_InrE dest!: deployFunction_attached split: option.splits)
qed

lemma filters_eligible:
  "filter (\<lambda>cfg. \<not> skipAutoDeploy cfg)
     (filter (\<lambda>cfg. enabled cfg)
        (filter (\<lambda>cfg. config_type cfg = category) (contractConfigs opts))) =
   eligible category opts"
  unfolding eligible_def filter_filter by (rule filter_cong) auto

lemma eligible_deployDao_options:
  "eligible category (deployDao_options imp opts0 a) = eligible category opts0"
  by (simp add: eligible_def contractConfigs_deployDao_options)

lemma tag_deployDao_options:
  "(\<lambda>cfg. attached (deployDao_options imp opts0 a)
            (bag (deployDao_options imp opts0 a) (config_name cfg))) =
   (\<lambda>cfg. attached (deployDao_options imp opts0 0)
            (bag (deployDao_options imp opts0 0) (config_name cfg)))"
  by (rule ext) (rule attached_deployDao_options)

lemma createFactories_expected:
  assumes "createFactories (deployDao_options imp opts0 a) w = (Inr d, w')"
  shows "shape d = expected Factory imp opts0"
  using createFactories_shape [OF assms, unfolded filters_eligible eligible_deployDao_options]
  by (simp add: expected_def tag_deployDao_options [of imp opts0 a])

lemma createAdapters_expected:
  assumes "createAdapters (deployDao_options imp opts0 a) w = (Inr d, w')"
  shows "shape d = expected Adapter imp opts0"
  using deploy_loop_shape
    [OF assms [unfolded createAdapters_def], unfolded filters_eligible eligible_deployDao_options]
  by (simp add: expected_def tag_deployDao_options [of imp opts0 a])

lemma createUtilContracts_expected:
  assumes "createUtilContracts (deployDao_options imp opts0 a) w = (Inr d, w')"
  shows "shape d = expected Util imp opts0"
  using deploy_loop_shape
    [OF assms [unfolded createUtilContracts_def], unfolded filters_eligible eligible_deployDao_options]
  by (simp add: expected_def tag_deployDao_options [of imp opts0 a])

lemma createTestContracts_expected:
  assumes "createTestContracts (deployDao_options imp opts0 a) w = (Inr d, w')"
  shows "shape d =
           (if truthy (bag opts0 ''deployTestTokens'') then expected Test imp opts0
            else new_object)"
proof (cases "truthy (bag opts0 ''deployTestTokens'')")
  case True
  then have flag: "truthy (bag (deployDao_options imp opts0 a) ''deployTestTokens'')"
    by (simp add: deployDao_options_def)
  from assms have "reduce_then
      (\<lambda>cfg testContracts.
         then_io (deployContract cfg (deployDao_options imp opts0 a))
           (\<lambda>testContract. register testContract testContracts))
      (filter (\<lambda>cfg. \<not> skipAutoDeploy cfg)
         (filter (\<lambda>cfg. enabled cfg)
            (filter (\<lambda>cfg. config_type cfg = Test)
               (contractConfigs (deployDao_options imp opts0 a)))))
      new_object w = (Inr d, w')"
    by (simp add: createTestContracts_def flag)
  from deploy_loop_shape [OF this, unfolded filters_eligible eligible_deployDao_options] True
  show ?thesis
    by (simp add: expected_def tag_deployDao_options [of imp opts0 a])
next
  case False
  then have "\<not> truthy (bag (deployDao_options imp opts0 a) ''deployTestTokens'')"
    by (simp add: deployDao_options_def)
  with assms False show ?thesis
    by (simp add: createTestContracts_def resolve_def shape_new_object)
qed

lemma createExtensions_expected:
  assumes "createExtensions d facs (deployDao_options imp opts0 a) w = (Inr exts, w')"
  shows "shape exts =
           registered (generated (deployDao_options imp opts0 0))
             (Object_values (own (shape facs))) new_object"
proof -
  have "generated (deployDao_options imp opts0 a) = generated (deployDao_options imp opts0 0)"
    by (rule ext) (rule generated_deployDao_options)
  with createExtensions_shape [OF assms] show ?thesis
    by simp
qed

lemma shape_adapters_with_voting:
  "shape (case v of None \<Rightarrow> adps | Some voting \<Rightarrow> assign (config_alias (configs voting)) voting adps) =
   (case map_option configs v of
      None \<Rightarrow> shape adps
    | Some c \<Rightarrow> assign (config_alias c) c (shape adps))"
  by (cases v) (simp_all add: shape_assign)

lemma factories_structure:
  "map (\<lambda>p. (fst p, instance_configs (snd p))) (own (spread_with_daoFactory facs df)) =
   put ''daoFactory'' (instance_configs df)
     (map (\<lambda>p. (fst p, Some (snd p))) (own_properties (own (shape facs))))"
  by (simp add: spread_with_daoFactory_def put_map shape_def own_properties_map
      as_instance_def o_def)

lemma factories_prototype: "prototype (spread_with_daoFactory facs df) = None"
  by (simp add: spread_with_daoFactory_def)

section \<open>Two runs have the same structure\<close>

lemma deployDao_structure:
  assumes run: "deployDao imp opts0 w = (Inr r, w')"
  shows "structure_of r =
      (None,
       (case (if truthy (bag opts0 ''offchainVoting'')
              then attached (deployDao_options imp opts0 0)
                     (bag (deployDao_options imp opts0 0) ''OffchainVotingContract'')
              else None) of
          None \<Rightarrow> expected Adapter imp opts0
        | Some c \<Rightarrow> assign (config_alias c) c (expected Adapter imp opts0)),
       registered (generated (deployDao_options imp opts0 0))
         (Object_values (own (expected Factory imp opts0))) new_object,
       (if truthy (bag opts0 ''deployTestTokens'') then expected Test imp opts0
        else new_object),
       expected Util imp opts0,
       (if truthy (bag opts0 ''offchainVoting'')
        then (Some (attached (deployDao_options imp opts0 0)
                      (bag (deployDao_options imp opts0 0) ''SnapshotProposalContract'')),
              Some (attached (deployDao_options imp opts0 0)
                      (bag (deployDao_options imp opts0 0) ''KickBadReporterAdapter'')),
              attached (deployDao_options imp opts0 0)
                (bag (deployDao_options imp opts0 0) ''OffchainVotingContract''))
        else (None, None, None)),
       put ''daoFactory''
         (attached (cloneDao_options opts0) (bag (cloneDao_options opts0) ''DaoFactory''))
         (map (\<lambda>p. (fst p, Some (snd p))) (own_properties (own (expected Factory imp opts0)))),
       None)"
proof -
  from deployDao_success [OF run]
  obtain d df nm u1 facs u2 exts u3 adps u4 u5 vh u6 utl u7 tst u8 where
    clone: "cloneDao (cloneDao_options opts0) w = (Inr (d, df, nm), u1)" and
    facs: "createFactories (deployDao_options imp opts0 (instance_address d)) u1 = (Inr facs, u2)" and
    exts: "createExtensions d facs (deployDao_options imp opts0 (instance_address d)) u2 =
             (Inr exts, u3)" and
    adps: "createAdapters (deployDao_options imp opts0 (instance_address d)) u3 = (Inr adps, u4)" and
    voting: "configureOffchainVoting imp (deployDao_options imp opts0 (instance_address d)) d df
               exts u5 = (Inr vh, u6)" and
    utl: "createUtilContracts (deployDao_options imp opts0 (instance_address d)) u6 = (Inr utl, u7)" and
    tst: "createTestContracts (deployDao_options imp opts0 (instance_address d)) u7 = (Inr tst, u8)" and
    r: "r = \<lparr>dao = d,
       adapters = (case offchainVoting vh of
                     None \<Rightarrow> adps
                   | Some voting \<Rightarrow> assign (config_alias (configs voting)) voting adps),
       extensions = exts, testContracts = tst, utilContracts = utl, votingHelpers = vh,
       factories = spread_with_daoFactory facs df\<rparr>"
    by blast
  let ?o = "deployDao_options imp opts0 (instance_address d)"
  have flag: "bag ?o ''offchainVoting'' = bag opts0 ''offchainVoting''"
    by (simp add: deployDao_options_def)
  note att = attached_deployDao_options [of imp opts0 "instance_address d" _ 0]
  from configureOffchainVoting_helpers [OF voting]
  have vh: "(map_option instance_configs (snapshotProposalContract vh),
             map_option instance_configs (handleBadReporterAdapter vh),
             map_option configs (offchainVoting vh)) =
     (if truthy (bag opts0 ''offchainVoting'')
      then (Some (attached (deployDao_options imp opts0 0)
                    (bag (deployDao_options imp opts0 0) ''SnapshotProposalContract'')),
            Some (attached (deployDao_options imp opts0 0)
                    (bag (deployDao_options imp opts0 0) ''KickBadReporterAdapter'')),
            attached (deployDao_options imp opts0 0)
              (bag (deployDao_options imp opts0 0) ''OffchainVotingContract''))
      else (None, None, None))"
    unfolding flag att by (cases "truthy (bag opts0 ''offchainVoting'')") auto
  then have ov: "map_option configs (offchainVoting vh) =
     (if truthy (bag opts0 ''offchainVoting'')
      then attached (deployDao_options imp opts0 0)
             (bag (deployDao_options imp opts0 0) ''OffchainVotingContract'')
      else None)"
    by (simp split: if_splits)
  show ?thesis
    unfolding structure_of_def r
    using cloneDao_instances [OF clone] createFactories_expected [OF facs]
      createExtensions_expected [OF exts] createAdapters_expected [OF adps]
      createUtilContracts_expected [OF utl] createTestContracts_expected [OF tst] vh
    by (simp add: shape_adapters_with_voting factories_structure factories_prototype ov
        cong: option.case_cong)
qed

text \<open>
  Claim C7. Two completed runs of \<^verbatim>\<open>deployDao\<close> with the same descriptor table and the
  same options, on any two chains, return results of identical structure: every category
  (\<^verbatim>\<open>dao\<close>, \<^verbatim>\<open>adapters\<close>, \<^verbatim>\<open>extensions\<close>, \<^verbatim>\<open>utilContracts\<close>, \<^verbatim>\<open>testContracts\<close>,
  \<^verbatim>\<open>votingHelpers\<close>, \<^verbatim>\<open>factories\<close>) has the same alias keys in the same order, each key
  with the same descriptor, and the same voting helpers are null. Only the addresses
  may differ.
\<close>

theorem deployDao_same_structure:
  "deployDao imp opts0 w1 = (Inr r1, w1') \<and> deployDao imp opts0 w2 = (Inr r2, w2') \<longrightarrow>
     structure_of r1 = structure_of r2 \<and>
     map fst (own (adapters r1)) = map fst (own (adapters r2)) \<and>
     map fst (own (extensions r1)) = map fst (own (extensions r2)) \<and>
     map fst (own (utilContracts r1)) = map fst (own (utilContracts r2)) \<and>
     map fst (own (testContracts r1)) = map fst (own (testContracts r2)) \<and>
     map fst (own (factories r1)) = map fst (own (factories r2)) \<and>
     (snapshotProposalContract (votingHelpers r1) = None \<longleftrightarrow>
        snapshotProposalContract (votingHelpers r2) = None) \<and>
     (handleBadReporterAdapter (votingHelpers r1) = None \<longleftrightarrow>
        handleBadReporterAdapter (votingHelpers r2) = None) \<and>
     (offchainVoting (votingHelpers r1) = None \<longleftrightarrow> offchainVoting (votingHelpers r2) = None)"
proof (intro impI)
  assume runs: "deployDao imp opts0 w1 = (Inr r1, w1') \<and> deployDao imp opts0 w2 = (Inr r2, w2')"
  from runs have s1: "structure_of r1 = structure_of r2"
    using deployDao_structure [of imp opts0 w1 r1 w1'] deployDao_structure [of imp opts0 w2 r2 w2']
    by simp
  then have shapes: "shape (adapters r1) = shape (adapters r2)"
      "shape (extensions r1) = shape (extensions r2)"
      "shape (utilContracts r1) = shape (utilContracts r2)"
      "shape (testContracts r1) = shape (testContracts r2)"
    and facs: "map (\<lambda>p. (fst p, instance_configs (snd p))) (own (factories r1)) =
               map (\<lambda>p. (fst p, instance_configs (snd p))) (own (factories r2))"
    and helpers:
      "map_option instance_configs (snapshotProposalContract (votingHelpers r1)) =
       map_option instance_configs (snapshotProposalContract (votingHelpers r2))"
      "map_option instance_configs (handleBadReporterAdapter (votingHelpers r1)) =
       map_option instance_configs (handleBadReporterAdapter (votingHelpers r2))"
      "map_option configs (offchainVoting (votingHelpers r1)) =
       map_option configs (offchainVoting (votingHelpers r2))"
    by (simp_all add: structure_of_def)
  have keys: "map fst (own (adapters r1)) = map fst (own (adapters r2))"
      "map fst (own (extensions r1)) = map fst (own (extensions r2))"
      "map fst (own (utilContracts r1)) = map fst (own (utilContracts r2))"
      "map fst (own (testContracts r1)) = map fst (own (testContracts r2))"
    using shapes [THEN arg_cong [where f = "\<lambda>d. map fst (own d)"]]
    by (simp_all add: keys_shape)
  have fkeys: "map fst (own (factories r1)) = map fst (own (factories r2))"
    using facs [THEN arg_cong [where f = "map fst"]] by (simp add: o_def)
  have nulls: "(snapshotProposalContract (votingHelpers r1) = None \<longleftrightarrow>
        snapshotProposalContract (votingHelpers r2) = None)"
     "(handleBadReporterAdapter (votingHelpers r1) = None \<longleftrightarrow>
        handleBadReporterAdapter (votingHelpers r2) = None)"
     "(offchainVoting (votingHelpers r1) = None \<longleftrightarrow> offchainVoting (votingHelpers r2) = None)"
    using helpers [THEN arg_cong [where f = "\<lambda>x. x = None"]] by simp_all
  from s1 keys fkeys nulls show "structure_of r1 = structure_of r2 \<and>
     map fst (own (adapters r1)) = map fst (own (adapters r2)) \<and>
     map fst (own (extensions r1)) = map fst (own (extensions r2)) \<and>
     map fst (own (utilContracts r1)) = map fst (own (utilContracts r2)) \<and>
     map fst (own (testContracts r1)) = map fst (own (testContracts r2)) \<and>
     map fst (own (factories r1)) = map fst (own (factories r2)) \<and>
     (snapshotProposalContract (votingHelpers r1) = None \<longleftrightarrow>
        snapshotProposalContract (votingHelpers r2) = None) \<and>
     (handleBadReporterAdapter (votingHelpers r1) = None \<longleftrightarrow>
        handleBadReporterAdapter (votingHelpers r2) = None) \<and>
     (offchainVoting (votingHelpers r1) = None \<longleftrightarrow> offchainVoting (votingHelpers r2) = None)"
    by simp
qed

lemma run_collapse:
  assumes "fst p = Inr r"
  shows "p = (Inr r, snd p)"
  using assms by (cases p) simp

theorem deployDao_same_structure_witness:
  "\<exists>r1 w1' r2 w2'.
     deployDao example_imported example_options example_chain = (Inr r1, w1') \<and>
     deployDao example_imported example_options example_other_chain = (Inr r2, w2') \<and>
     structure_of r1 = structure_of r2 \<and>
     map fst (own (adapters r1)) = map fst (own (adapters r2)) \<and>
     instance_address (dao r1) = 102 \<and> instance_address (dao r2) = 504"
proof -
  have "(case fst (deployDao example_imported example_options example_chain) of
           Inl e \<Rightarrow> False | Inr r \<Rightarrow> instance_address (dao r) = 102)"
    by code_simp
  then obtain r1 where r1: "fst (deployDao example_imported example_options example_chain) = Inr r1"
    and a1: "instance_address (dao r1) = 102"
    by (cases "fst (deployDao example_imported example_options example_chain)") auto
  have "(case fst (deployDao example_imported example_options example_other_chain) of
           Inl e \<Rightarrow> False | Inr r \<Rightarrow> instance_address (dao r) = 504)"
    by code_simp
  then obtain r2 where
    r2: "fst (deployDao example_imported example_options example_other_chain) = Inr r2"
    and a2: "instance_address (dao r2) = 504"
    by (cases "fst (deployDao example_imported example_options example_other_chain)") auto
  note run1 = run_collapse [OF r1] and run2 = run_collapse [OF r2]
  from deployDao_same_structure
    [of example_imported example_options example_chain r1 _ example_other_chain r2] run1 run2
  have "structure_of r1 = structure_of r2 \<and> map fst (own (adapters r1)) = map fst (own (adapters r2))"
    by blast
  with run1 run2 a1 a2 show ?thesis
    by blast
qed

lemma map_of_put: "map_of (put k v m) k = Some v"
  by (induction m) auto

lemma property_assign: "k \<noteq> ''__proto__'' \<Longrightarrow> property (assign k v m) k = Some v"
  by (simp add: property_def assign_def map_of_put)

lemma prototype_assign: "prototype (assign ''__proto__'' v m) = Some v"
  by (simp add: assign_def)

section \<open>The off-chain voting contract among the adapters\<close>

text \<open>
  Claim C10. The off-chain voting contract is deployed exactly when the flag
  \<^verbatim>\<open>offchainVoting\<close> is set, and then \<^verbatim>\<open>deployDao\<close> puts it into the returned adapters
  dictionary by the assignment \<^verbatim>\<open>adapters[alias] = offchainVoting\<close> under its own alias:
  the dictionary is the one of the deployed adapters with that one assignment made, so
  the entry under that alias is the voting contract, whatever adapter was registered
  there before. (Under the alias \<^verbatim>\<open>__proto__\<close> the assignment makes the voting contract the
  prototype of the dictionary instead of an entry.) So the adapters dictionary is not
  limited to descriptors of category Adapter, and its size can differ from the number of
  enabled, non-skipped Adapter descriptors: the example table with an off-chain voting
  descriptor of another category and alias shows both.
\<close>

theorem offchainVoting_enters_adapters:
  "(deployDao imp opts0 w = (Inr r, w') \<longrightarrow>
      (offchainVoting (votingHelpers r) \<noteq> None \<longleftrightarrow> truthy (bag opts0 ''offchainVoting'')) \<and>
      (\<forall>voting. offchainVoting (votingHelpers r) = Some voting \<longrightarrow>
         (config_alias (configs voting) \<noteq> ''__proto__'' \<longrightarrow>
            property (adapters r) (config_alias (configs voting)) = Some voting) \<and>
         (config_alias (configs voting) = ''__proto__'' \<longrightarrow>
            prototype (adapters r) = Some voting) \<and>
         shape (adapters r) =
           assign (config_alias (configs voting)) (configs voting) (expected Adapter imp opts0))) \<and>
   (\<exists>r w'. deployDao example_imported example_voting_options example_chain = (Inr r, w') \<and>
      length (own (adapters r)) \<noteq> length (eligible Adapter example_voting_options) \<and>
      (\<exists>entry \<in> set (own (adapters r)). config_type (configs (snd entry)) \<noteq> Adapter))"
proof (rule conjI)
  show "deployDao imp opts0 w = (Inr r, w') \<longrightarrow>
      (offchainVoting (votingHelpers r) \<noteq> None \<longleftrightarrow> truthy (bag opts0 ''offchainVoting'')) \<and>
      (\<forall>voting. offchainVoting (votingHelpers r) = Some voting \<longrightarrow>
         (config_alias (configs voting) \<noteq> ''__proto__'' \<longrightarrow>
            property (adapters r) (config_alias (configs voting)) = Some voting) \<and>
         (config_alias (configs voting) = ''__proto__'' \<longrightarrow>
            prototype (adapters r) = Some voting) \<and>
         shape (adapters r) =
           assign (config_alias (configs voting)) (configs voting) (expected Adapter imp opts0))"
  proof (intro impI conjI allI)
    assume run: "deployDao imp opts0 w = (Inr r, w')"
    from deployDao_structure [OF run]
    have ov: "map_option configs (offchainVoting (votingHelpers r)) =
        (if truthy (bag opts0 ''offchainVoting'')
         then attached (deployDao_options imp opts0 0)
                (bag (deployDao_options imp opts0 0) ''OffchainVotingContract'')
         else None)"
      and adps: "shape (adapters r) =
         (case (if truthy (bag opts0 ''offchainVoting'')
                then attached (deployDao_options imp opts0 0)
                       (bag (deployDao_options imp opts0 0) ''OffchainVotingContract'')
                else None) of
            None \<Rightarrow> expected Adapter imp opts0
          | Some c \<Rightarrow> assign (config_alias c) c (expected Adapter imp opts0))"
      by (simp_all add: structure_of_def split: if_splits)
    from deployDao_success [OF run]
    obtain adps0 vh d df exts u5 u6 where
      voting: "configureOffchainVoting imp (deployDao_options imp opts0 (instance_address d)) d df
                 exts u5 = (Inr vh, u6)"
      and r: "votingHelpers r = vh"
        "adapters r = (case offchainVoting vh of
                         None \<Rightarrow> adps0
                       | Some voting \<Rightarrow> assign (config_alias (configs voting)) voting adps0)"
      by auto
    from configureOffchainVoting_helpers [OF voting] r(1)
    show "offchainVoting (votingHelpers r) \<noteq> None \<longleftrightarrow> truthy (bag opts0 ''offchainVoting'')"
      by (auto simp: deployDao_options_def)
    fix voting
    assume v: "offchainVoting (votingHelpers r) = Some voting"
    from v r have a: "adapters r = assign (config_alias (configs voting)) voting adps0"
      by simp
    show "property (adapters r) (config_alias (configs voting)) = Some voting"
      if "config_alias (configs voting) \<noteq> ''__proto__''"
      unfolding a using that by (rule property_assign)
    show "prototype (adapters r) = Some voting"
      if "config_alias (configs voting) = ''__proto__''"
      unfolding a that by (rule prototype_assign)
    from v ov have "truthy (bag opts0 ''offchainVoting'')"
      and "attached (deployDao_options imp opts0 0)
             (bag (deployDao_options imp opts0 0) ''OffchainVotingContract'') = Some (configs voting)"
      by (auto split: if_splits)
    with adps show "shape (adapters r) =
        assign (config_alias (configs voting)) (configs voting) (expected Adapter imp opts0)"
      by simp
  qed
next
  have "(case fst (deployDao example_imported example_voting_options example_chain) of
           Inl e \<Rightarrow> False
         | Inr r \<Rightarrow>
             length (own (adapters r)) \<noteq> length (eligible Adapter example_voting_options) \<and>
             list_ex (\<lambda>entry. config_type (configs (snd entry)) \<noteq> Adapter) (own (adapters r)))"
    by code_simp
  then obtain r where
    r: "fst (deployDao example_imported example_voting_options example_chain) = Inr r"
    and facts: "length (own (adapters r)) \<noteq> length (eligible Adapter example_voting_options)"
      "list_ex (\<lambda>entry. config_type (configs (snd entry)) \<noteq> Adapter) (own (adapters r))"
    by (cases "fst (deployDao example_imported example_voting_options example_chain)") auto
  from run_collapse [OF r] facts
  show "\<exists>r w'. deployDao example_imported example_voting_options example_chain = (Inr r, w') \<and>
      length (own (adapters r)) \<noteq> length (eligible Adapter example_voting_options) \<and>
      (\<exists>entry \<in> set (own (adapters r)). config_type (configs (snd entry)) \<noteq> Adapter)"
    unfolding list_ex_iff by blast
qed

theorem offchainVoting_enters_adapters_witness:
  "\<exists>r w' voting.
     deployDao example_imported (example_options\<lparr>bag := example_bag(''offchainVoting'' := Bool True)\<rparr>)
       example_chain = (Inr r, w') \<and>
     truthy (bag (example_options\<lparr>bag := example_bag(''offchainVoting'' := Bool True)\<rparr>)
       ''offchainVoting'') \<and>
     offchainVoting (votingHelpers r) = Some voting \<and>
     config_alias (configs voting) \<noteq> ''__proto__'' \<and>
     property (adapters r) (config_alias (configs voting)) = Some voting \<and>
     config_name (configs voting) = ''OffchainVotingContract'' \<and>
     map fst (own (adapters r)) = [''voting'']"
proof -
  let ?opts = "example_options\<lparr>bag := example_bag(''offchainVoting'' := Bool True)\<rparr>"
  have "(case fst (deployDao example_imported ?opts example_chain) of
           Inl e \<Rightarrow> False
         | Inr r \<Rightarrow>
             (case offchainVoting (votingHelpers r) of
                None \<Rightarrow> False
              | Some voting \<Rightarrow>
                  config_name (configs voting) = ''OffchainVotingContract'' \<and>
                  config_alias (configs voting) \<noteq> ''__proto__'') \<and>
             map fst (own (adapters r)) = [''voting''])"
    by code_simp
  then obtain r voting where
    r: "fst (deployDao example_imported ?opts example_chain) = Inr r"
    and v: "offchainVoting (votingHelpers r) = Some voting"
    and facts: "config_name (configs voting) = ''OffchainVotingContract''"
      "config_alias (configs voting) \<noteq> ''__proto__''"
      "map fst (own (adapters r)) = [''voting'']"
    by (cases "fst (deployDao example_imported ?opts example_chain)")
      (auto split: option.splits)
  note run = run_collapse [OF r]
  from offchainVoting_enters_adapters [of example_imported ?opts example_chain r] run v facts(2)
  have flag: "truthy (bag ?opts ''offchainVoting'')"
    and entry: "property (adapters r) (config_alias (configs voting)) = Some voting"
    by auto
  show ?thesis
    by (intro exI conjI) (rule run flag v entry facts)+
qed

section \<open>Well-formed tables: one entry per descriptor\<close>

lemma put_fresh: "k \<notin> fst ` set m \<Longrightarrow> put k v m = m @ [(k, v)]"
  by (induction m) auto

lemma registered_Nil: "registered tag [] s = s"
  by (simp add: registered_def)

lemma registered_Cons:
  "registered tag (x # xs) s =
     registered tag xs (case tag x of None \<Rightarrow> s | Some c \<Rightarrow> assign (config_alias c) c s)"
  by (simp add: registered_def)

lemma registered_fresh:
  assumes "\<forall>x \<in> set xs. tag x = Some (g x)"
    and "distinct (map (\<lambda>x. config_alias (g x)) xs)"
    and "(\<lambda>x. config_alias (g x)) ` set xs \<inter> fst ` set (own s) = {}"
    and "\<forall>x \<in> set xs. config_alias (g x) \<noteq> ''__proto__''"
  shows "registered tag xs s = s\<lparr>own := own s @ map (\<lambda>x. (config_alias (g x), g x)) xs\<rparr>"
  using assms
proof (induction xs arbitrary: s)
  case Nil
  then show ?case by (simp add: registered_Nil)
next
  case (Cons x xs)
  then have fresh: "config_alias (g x) \<notin> fst ` set (own s)"
    by auto
  let ?s = "s\<lparr>own := own s @ [(config_alias (g x), g x)]\<rparr>"
  have "registered tag (x # xs) s = registered tag xs ?s"
    using Cons.prems(1,4) fresh by (simp add: registered_Cons assign_def put_fresh)
  also have "\<dots> = ?s\<lparr>own := own ?s @ map (\<lambda>x. (config_alias (g x), g x)) xs\<rparr>"
    using Cons.prems by (intro Cons.IH) auto
  finally show ?case by simp
qed

lemma registered_cong:
  "(\<And>x. x \<in> set xs \<Longrightarrow> tag x = tag' x) \<Longrightarrow> registered tag xs s = registered tag' xs s"
  by (induction xs arbitrary: s) (simp_all add: registered_Nil registered_Cons)

lemma map_filter_total:
  "\<forall>x \<in> set xs. f x \<noteq> None \<Longrightarrow> List.map_filter f xs = map (\<lambda>x. the (f x)) xs"
  by (induction xs) (auto simp: map_filter_simps)

lemma attached_well_formed:
  assumes wf: "well_formed imp opts0" and cfg: "cfg \<in> set (contractConfigs opts0)"
    and some: "attached (deployDao_options imp opts0 0)
                 (bag (deployDao_options imp opts0 0) (config_name cfg)) \<noteq> None"
  shows "attached (deployDao_options imp opts0 0)
           (bag (deployDao_options imp opts0 0) (config_name cfg)) = Some cfg"
proof -
  from some obtain nm where
    nm: "bag (deployDao_options imp opts0 0) (config_name cfg) = Contract nm"
    by (auto simp: attached_def split: jsval.splits)
  from wf cfg have "case bag (deployDao_options imp opts0 0) (config_name cfg) of
                      Contract nm \<Rightarrow> nm = config_name cfg | _ \<Rightarrow> True"
    by (simp add: well_formed_def list_all_iff)
  with nm have "nm = config_name cfg"
    by simp
  moreover from wf cfg have
    "find (\<lambda>c. config_name c = config_name cfg) (contractConfigs opts0) = Some cfg"
    by (intro find_by_key) (auto simp: well_formed_def)
  ultimately show ?thesis
    using nm by (simp add: attached_def contractConfigs_deployDao_options)
qed

lemma eligible_subset: "set (eligible category opts) \<subseteq> set (contractConfigs opts)"
  by (auto simp: eligible_def)

lemma eligible_aliases:
  assumes "well_formed imp opts0" and "category \<in> {Factory, Adapter, Util, Test}"
  shows "distinct (map config_alias (eligible category opts0))"
    and "\<forall>cfg \<in> set (eligible category opts0). config_alias cfg \<noteq> ''__proto__''"
  using assms by (auto simp: well_formed_def image_iff)

lemma expected_well_formed:
  assumes wf: "well_formed imp opts0" and cat: "category \<in> {Factory, Adapter, Util, Test}"
    and some: "\<forall>cfg \<in> set (eligible category opts0).
                 attached (deployDao_options imp opts0 0)
                   (bag (deployDao_options imp opts0 0) (config_name cfg)) \<noteq> None"
  shows "expected category imp opts0 = one_entry_each (eligible category opts0)"
proof -
  have "\<forall>cfg \<in> set (eligible category opts0).
          attached (deployDao_options imp opts0 0)
            (bag (deployDao_options imp opts0 0) (config_name cfg)) = Some cfg"
    using attached_well_formed [OF wf] some eligible_subset by blast
  from registered_fresh
    [where g = "\<lambda>c. c" and s = new_object, OF this eligible_aliases(1) [OF wf cat] _
       eligible_aliases(2) [OF wf cat]]
  show ?thesis
    by (simp add: expected_def one_entry_each_def new_object_def)
qed

lemma set_own_properties: "set (own_properties m) = set m"
  by (auto simp: own_properties_def)

lemma set_Object_values: "set (Object_values m) = snd ` set m"
  by (simp add: Object_values_def set_own_properties)

lemma generated_well_formed:
  assumes wf: "well_formed imp opts0"
    and some: "generated (deployDao_options imp opts0 0) f \<noteq> None"
  shows "generated (deployDao_options imp opts0 0) f =
           find (\<lambda>c. Some (config_id c) = generatesExtensionId f) (contractConfigs opts0)"
proof -
  from some obtain e where
    e: "find (\<lambda>c. Some (config_id c) = generatesExtensionId f) (contractConfigs opts0) = Some e"
    and att: "attached (deployDao_options imp opts0 0)
                (bag (deployDao_options imp opts0 0) (config_name e)) \<noteq> None"
    by (auto simp: generated_def contractConfigs_deployDao_options split: option.splits)
  from e have "e \<in> set (contractConfigs opts0)"
    by (auto simp: find_Some_iff)
  from attached_well_formed [OF wf this att] e show ?thesis
    by (simp add: generated_def contractConfigs_deployDao_options)
qed

lemma deployDao_deployed:
  assumes run: "deployDao imp opts0 w = (Inr r, w')"
  shows "\<forall>cfg \<in> set (eligible Factory opts0) \<union> set (eligible Adapter opts0) \<union>
                  set (eligible Util opts0) \<union>
                  (if truthy (bag opts0 ''deployTestTokens'') then set (eligible Test opts0) else {}).
           attached (deployDao_options imp opts0 0)
             (bag (deployDao_options imp opts0 0) (config_name cfg)) \<noteq> None"
    and "\<forall>c \<in> set (Object_values (own (expected Factory imp opts0))).
           generated (deployDao_options imp opts0 0) c \<noteq> None"
proof -
  from deployDao_success [OF run]
  obtain d df nm u1 facs u2 exts u3 adps u4 u6 utl u7 tst u8 where
    facs: "createFactories (deployDao_options imp opts0 (instance_address d)) u1 = (Inr facs, u2)" and
    exts: "createExtensions d facs (deployDao_options imp opts0 (instance_address d)) u2 =
             (Inr exts, u3)" and
    adps: "createAdapters (deployDao_options imp opts0 (instance_address d)) u3 = (Inr adps, u4)" and
    utl: "createUtilContracts (deployDao_options imp opts0 (instance_address d)) u6 = (Inr utl, u7)" and
    tst: "createTestContracts (deployDao_options imp opts0 (instance_address d)) u7 = (Inr tst, u8)"
    by blast
  let ?a = "instance_address d"
  note att = attached_deployDao_options [of imp opts0 ?a _ 0]
  have f: "\<forall>cfg \<in> set (eligible Factory opts0).
      attached (deployDao_options imp opts0 0)
        (bag (deployDao_options imp opts0 0) (config_name cfg)) \<noteq> None"
    using createFactories_shape [OF facs, unfolded filters_eligible eligible_deployDao_options att]
    by simp
  have a: "\<forall>cfg \<in> set (eligible Adapter opts0).
      attached (deployDao_options imp opts0 0)
        (bag (deployDao_options imp opts0 0) (config_name cfg)) \<noteq> None"
    using deploy_loop_shape [OF adps [unfolded createAdapters_def],
        unfolded filters_eligible eligible_deployDao_options att]
    by simp
  have u: "\<forall>cfg \<in> set (eligible Util opts0).
      attached (deployDao_options imp opts0 0)
        (bag (deployDao_options imp opts0 0) (config_name cfg)) \<noteq> None"
    using deploy_loop_shape [OF utl [unfolded createUtilContracts_def],
        unfolded filters_eligible eligible_deployDao_options att]
    by simp
  have t: "\<forall>cfg \<in> set (eligible Test opts0).
      attached (deployDao_options imp opts0 0)
        (bag (deployDao_options imp opts0 0) (config_name cfg)) \<noteq> None"
    if flag: "truthy (bag opts0 ''deployTestTokens'')"
  proof -
    from flag have "truthy (bag (deployDao_options imp opts0 ?a) ''deployTestTokens'')"
      by (simp add: deployDao_options_def)
    with tst have "reduce_then
        (\<lambda>cfg testContracts.
           then_io (deployContract cfg (deployDao_options imp opts0 ?a))
             (\<lambda>testContract. register testContract testContracts))
        (filter (\<lambda>cfg. \<not> skipAutoDeploy cfg)
           (filter (\<lambda>cfg. enabled cfg)
              (filter (\<lambda>cfg. config_type cfg = Test)
                 (contractConfigs (deployDao_options imp opts0 ?a)))))
        new_object u7 = (Inr tst, u8)"
      by (simp add: createTestContracts_def)
    from deploy_loop_shape [OF this, unfolded filters_eligible eligible_deployDao_options att]
    show ?thesis by simp
  qed
  from f a u t show "\<forall>cfg \<in> set (eligible Factory opts0) \<union> set (eligible Adapter opts0) \<union>
                  set (eligible Util opts0) \<union>
                  (if truthy (bag opts0 ''deployTestTokens'') then set (eligible Test opts0) else {}).
           attached (deployDao_options imp opts0 0)
             (bag (deployDao_options imp opts0 0) (config_name cfg)) \<noteq> None"
    by auto
  have gen: "generated (deployDao_options imp opts0 ?a) = generated (deployDao_options imp opts0 0)"
    by (rule ext) (rule generated_deployDao_options)
  from createExtensions_shape [OF exts] createFactories_expected [OF facs]
  show "\<forall>c \<in> set (Object_values (own (expected Factory imp opts0))).
           generated (deployDao_options imp opts0 0) c \<noteq> None"
    by (simp add: gen)
qed

lemma example_run: "fst (deployDao example_imported example_options example_chain) = Inr example_result"
  by code_simp

lemma example_full_run:
  "fst (deployDao example_imported example_full_options example_chain) = Inr example_full_result"
  by code_simp

text \<open>
  The property as the spec words it fails on the example. The run completes, the table
  has an enabled, non-skipped Test descriptor, and since \<^verbatim>\<open>deployTestTokens\<close> is not set
  (the gate of line 533) the result has no entry for it. With \<^verbatim>\<open>deployTestTokens\<close> and
  \<^verbatim>\<open>offchainVoting\<close> set the run completes too, and the property fails again: the
  off-chain voting contract, whose descriptor is marked \<^verbatim>\<open>skipAutoDeploy\<close>, has been
  assigned into \<^verbatim>\<open>adapters\<close> under its alias (lines 280 to 283), which is also the alias
  of the enabled, non-skipped voting adapter, and is the only entry there.
\<close>

theorem test_contracts_gate_counterexample:
  "fst (deployDao example_imported example_options example_chain) = Inr example_result \<and>
   \<not> one_entry_per_descriptor example_options example_result \<and>
   example_table ! 4 \<in> set (eligible Test example_options) \<and>
   \<not> truthy (bag example_options ''deployTestTokens'') \<and>
   own (testContracts example_result) = [] \<and>
   fst (deployDao example_imported example_full_options example_chain) =
     Inr example_full_result \<and>
   \<not> one_entry_per_descriptor example_full_options example_full_result \<and>
   example_table ! 2 \<in> set (eligible Adapter example_full_options) \<and>
   config_type (example_table ! 5) = Adapter \<and> skipAutoDeploy (example_table ! 5) \<and>
   entries_of example_full_result Adapter = [(''voting'', Some (example_table ! 5))]"
proof (intro conjI)
  show "fst (deployDao example_imported example_options example_chain) = Inr example_result"
    by (rule example_run)
  show "fst (deployDao example_imported example_full_options example_chain) =
      Inr example_full_result"
    by (rule example_full_run)
qed code_simp+

text \<open>
  Claim C1, as amended. Take a well-formed input (\<open>well_formed\<close>: distinct descriptor
  names, every contract registered under its own name, and among the enabled, non-skipped
  descriptors of each of the categories Factory, Adapter, Util and Test pairwise distinct
  aliases, none \<^verbatim>\<open>__proto__\<close> and no factory alias \<^verbatim>\<open>daoFactory\<close>) under which \<^verbatim>\<open>deployDao\<close>
  completes. Then, with every entry keyed by the alias of its descriptor and carrying that
  descriptor:
  \<^item> \<^verbatim>\<open>utilContracts\<close> holds exactly one entry per enabled, non-skipped Util descriptor, in
    table order, and nothing else;
  \<^item> \<^verbatim>\<open>testContracts\<close> holds exactly one entry per enabled, non-skipped Test descriptor, in
    table order, when \<^verbatim>\<open>deployTestTokens\<close> is set, and is empty when it is not;
  \<^item> \<^verbatim>\<open>adapters\<close> holds exactly one entry per enabled, non-skipped Adapter descriptor, in
    table order, and nothing else when the \<^verbatim>\<open>offchainVoting\<close> flag is not set; when it is
    set, the off-chain voting contract, whatever the category and the flags of its
    descriptor, is assigned into that dictionary under its own alias (replacing the
    adapter of that alias, if there is one);
  \<^item> \<^verbatim>\<open>factories\<close> holds exactly one entry per enabled, non-skipped Factory descriptor, in
    enumeration order, followed by the DAO factory under the key \<^verbatim>\<open>daoFactory\<close>, which
    carries whatever descriptor the table has under the name of its contract, if any;
  \<^item> if, in addition, the descriptors that the enabled, non-skipped factories generate
    are exactly the enabled, non-skipped Extension descriptors, under pairwise distinct
    aliases other than \<^verbatim>\<open>__proto__\<close> (\<open>consistent_links\<close>), then \<^verbatim>\<open>extensions\<close> holds exactly
    one entry per enabled, non-skipped Extension descriptor, in the order of the
    factories generating them, and nothing else.
\<close>

theorem deployDao_entries_per_descriptor:
  "deployDao imp opts0 w = (Inr r, w') \<and> well_formed imp opts0 \<longrightarrow>
     shape (utilContracts r) = one_entry_each (eligible Util opts0) \<and>
     shape (testContracts r) =
       (if truthy (bag opts0 ''deployTestTokens'') then one_entry_each (eligible Test opts0)
        else new_object) \<and>
     (offchainVoting (votingHelpers r) \<noteq> None \<longleftrightarrow> truthy (bag opts0 ''offchainVoting'')) \<and>
     shape (adapters r) =
       (case offchainVoting (votingHelpers r) of
          None \<Rightarrow> one_entry_each (eligible Adapter opts0)
        | Some voting \<Rightarrow>
            assign (config_alias (configs voting)) (configs voting)
              (one_entry_each (eligible Adapter opts0))) \<and>
     map (\<lambda>p. (fst p, instance_configs (snd p))) (own (factories r)) =
       map (\<lambda>p. (fst p, Some (snd p)))
         (own_properties (own (one_entry_each (eligible Factory opts0)))) @
       [(''daoFactory'',
         attached (cloneDao_options opts0) (bag (cloneDao_options opts0) ''DaoFactory''))] \<and>
     prototype (factories r) = None \<and>
     (consistent_links opts0 \<longrightarrow>
        shape (extensions r) = one_entry_each (generated_extensions opts0))"
proof (intro impI)
  assume h: "deployDao imp opts0 w = (Inr r, w') \<and> well_formed imp opts0"
  then have run: "deployDao imp opts0 w = (Inr r, w')" and wf: "well_formed imp opts0"
    by simp_all
  note deployed = deployDao_deployed [OF run]
  have F: "expected Factory imp opts0 = one_entry_each (eligible Factory opts0)"
    and A: "expected Adapter imp opts0 = one_entry_each (eligible Adapter opts0)"
    and U: "expected Util imp opts0 = one_entry_each (eligible Util opts0)"
    using deployed(1) by (auto intro!: expected_well_formed [OF wf])
  have T: "expected Test imp opts0 = one_entry_each (eligible Test opts0)"
    if "truthy (bag opts0 ''deployTestTokens'')"
    using deployed(1) that by (auto intro!: expected_well_formed [OF wf])
  from deployDao_structure [OF run]
  have adps: "shape (adapters r) =
       (case (if truthy (bag opts0 ''offchainVoting'')
              then attached (deployDao_options imp opts0 0)
                     (bag (deployDao_options imp opts0 0) ''OffchainVotingContract'')
              else None) of
          None \<Rightarrow> expected Adapter imp opts0
        | Some c \<Rightarrow> assign (config_alias c) c (expected Adapter imp opts0))"
    and ov: "map_option configs (offchainVoting (votingHelpers r)) =
      (if truthy (bag opts0 ''offchainVoting'')
       then attached (deployDao_options imp opts0 0)
              (bag (deployDao_options imp opts0 0) ''OffchainVotingContract'')
       else None)"
    and snap: "map_option instance_configs (snapshotProposalContract (votingHelpers r)) =
      (if truthy (bag opts0 ''offchainVoting'')
       then Some (attached (deployDao_options imp opts0 0)
              (bag (deployDao_options imp opts0 0) ''SnapshotProposalContract''))
       else None)"
    and exts: "shape (extensions r) =
       registered (generated (deployDao_options imp opts0 0))
         (Object_values (own (expected Factory imp opts0))) new_object"
    and utl: "shape (utilContracts r) = expected Util imp opts0"
    and tst: "shape (testContracts r) =
       (if truthy (bag opts0 ''deployTestTokens'') then expected Test imp opts0
        else new_object)"
    and facs: "map (\<lambda>p. (fst p, instance_configs (snd p))) (own (factories r)) =
       put ''daoFactory''
         (attached (cloneDao_options opts0) (bag (cloneDao_options opts0) ''DaoFactory''))
         (map (\<lambda>p. (fst p, Some (snd p))) (own_properties (own (expected Factory imp opts0))))"
    and c6: "prototype (factories r) = None"
    by (simp_all add: structure_of_def split: if_splits)
  have c1: "shape (utilContracts r) = one_entry_each (eligible Util opts0)"
    using utl U by simp
  have c2: "shape (testContracts r) =
       (if truthy (bag opts0 ''deployTestTokens'') then one_entry_each (eligible Test opts0)
        else new_object)"
    using tst T by simp
  have c3: "offchainVoting (votingHelpers r) \<noteq> None \<longleftrightarrow> truthy (bag opts0 ''offchainVoting'')"
  proof -
    from snap have "snapshotProposalContract (votingHelpers r) \<noteq> None \<longleftrightarrow>
        truthy (bag opts0 ''offchainVoting'')"
      by (auto split: if_splits)
    moreover from deployDao_success [OF run]
    obtain vh d df exts0 u5 u6 where
      "configureOffchainVoting imp (deployDao_options imp opts0 (instance_address d)) d df
         exts0 u5 = (Inr vh, u6)" and "votingHelpers r = vh"
      by auto
    with configureOffchainVoting_helpers [OF this(1)]
    have "offchainVoting (votingHelpers r) \<noteq> None \<longleftrightarrow>
        snapshotProposalContract (votingHelpers r) \<noteq> None"
      by (auto simp: deployDao_options_def)
    ultimately show ?thesis by simp
  qed
  have c4: "shape (adapters r) =
       (case offchainVoting (votingHelpers r) of
          None \<Rightarrow> one_entry_each (eligible Adapter opts0)
        | Some voting \<Rightarrow>
            assign (config_alias (configs voting)) (configs voting)
              (one_entry_each (eligible Adapter opts0)))"
    using adps unfolding A ov [symmetric]
    by (cases "offchainVoting (votingHelpers r)") simp_all
  have keys: "''daoFactory'' \<notin>
      fst ` set (map (\<lambda>p. (fst p, Some (snd p)))
                   (own_properties (own (one_entry_each (eligible Factory opts0)))))"
    using wf by (auto simp: well_formed_def one_entry_each_def set_own_properties)
  have c5: "map (\<lambda>p. (fst p, instance_configs (snd p))) (own (factories r)) =
       map (\<lambda>p. (fst p, Some (snd p)))
         (own_properties (own (one_entry_each (eligible Factory opts0)))) @
       [(''daoFactory'',
         attached (cloneDao_options opts0) (bag (cloneDao_options opts0) ''DaoFactory''))]"
    using facs unfolding F by (simp only: put_fresh [OF keys])
  have c7: "shape (extensions r) = one_entry_each (generated_extensions opts0)"
    if links: "consistent_links opts0"
  proof -
    let ?link = "\<lambda>f. find (\<lambda>c. Some (config_id c) = generatesExtensionId f) (contractConfigs opts0)"
    let ?fs = "Object_values (own (one_entry_each (eligible Factory opts0)))"
    have gen: "\<forall>f \<in> set ?fs. generated (deployDao_options imp opts0 0) f = Some (the (?link f))"
      and total: "\<forall>f \<in> set ?fs. ?link f \<noteq> None"
      using deployed(2) generated_well_formed [OF wf] unfolding F by force+
    have ge: "generated_extensions opts0 = map (\<lambda>f. the (?link f)) ?fs"
      unfolding generated_extensions_def by (rule map_filter_total) (rule total)
    from links have d: "distinct (map (\<lambda>f. config_alias (the (?link f))) ?fs)"
      by (simp add: consistent_links_def ge o_def)
    from links have p: "\<forall>f \<in> set ?fs. config_alias (the (?link f)) \<noteq> ''__proto__''"
      by (auto simp: consistent_links_def ge o_def image_iff)
    from registered_fresh [where s = new_object, OF gen d _ p]
    have "registered (generated (deployDao_options imp opts0 0)) ?fs new_object =
        one_entry_each (generated_extensions opts0)"
      by (simp add: new_object_def one_entry_each_def ge o_def)
    with exts show ?thesis
      by (simp add: F)
  qed
  from c1 c2 c3 c4 c5 c6 c7 show "shape (utilContracts r) = one_entry_each (eligible Util opts0) \<and>
     shape (testContracts r) =
       (if truthy (bag opts0 ''deployTestTokens'') then one_entry_each (eligible Test opts0)
        else new_object) \<and>
     (offchainVoting (votingHelpers r) \<noteq> None \<longleftrightarrow> truthy (bag opts0 ''offchainVoting'')) \<and>
     shape (adapters r) =
       (case offchainVoting (votingHelpers r) of
          None \<Rightarrow> one_entry_each (eligible Adapter opts0)
        | Some voting \<Rightarrow>
            assign (config_alias (configs voting)) (configs voting)
              (one_entry_each (eligible Adapter opts0))) \<and>
     map (\<lambda>p. (fst p, instance_configs (snd p))) (own (factories r)) =
       map (\<lambda>p. (fst p, Some (snd p)))
         (own_properties (own (one_entry_each (eligible Factory opts0)))) @
       [(''daoFactory'',
         attached (cloneDao_options opts0) (bag (cloneDao_options opts0) ''DaoFactory''))] \<and>
     prototype (factories r) = None \<and>
     (consistent_links opts0 \<longrightarrow>
        shape (extensions r) = one_entry_each (generated_extensions opts0))"
    by blast
qed

theorem deployDao_entries_per_descriptor_witness:
  "(\<exists>r w'.
      deployDao example_imported example_options example_chain = (Inr r, w') \<and>
      well_formed example_imported example_options \<and>
      consistent_links example_options \<and>
      shape (utilContracts r) =
        \<lparr>own = [(''multicall'', example_table ! 3)], prototype = None\<rparr> \<and>
      shape (testContracts r) = new_object \<and>
      shape (adapters r) = \<lparr>own = [(''voting'', example_table ! 2)], prototype = None\<rparr> \<and>
      map (\<lambda>p. (fst p, instance_configs (snd p))) (own (factories r)) =
        [(''bankExtFactory'', Some (example_table ! 0)), (''daoFactory'', None)] \<and>
      shape (extensions r) = \<lparr>own = [(''bankExt'', example_table ! 1)], prototype = None\<rparr>) \<and>
   (\<exists>r w'.
      deployDao example_imported example_full_options example_chain = (Inr r, w') \<and>
      well_formed example_imported example_full_options \<and>
      shape (testContracts r) =
        \<lparr>own = [(''testToken1'', example_table ! 4)], prototype = None\<rparr> \<and>
      shape (adapters r) = \<lparr>own = [(''voting'', example_table ! 5)], prototype = None\<rparr>)"
proof (rule conjI)
  have "fst (deployDao example_imported example_options example_chain) = Inr example_result"
    by code_simp
  note run = run_collapse [OF this]
  have wf: "well_formed example_imported example_options"
    by code_simp
  have links: "consistent_links example_options"
    by code_simp
  have vals: "one_entry_each (eligible Util example_options) =
        \<lparr>own = [(''multicall'', example_table ! 3)], prototype = None\<rparr>"
      "one_entry_each (eligible Adapter example_options) =
        \<lparr>own = [(''voting'', example_table ! 2)], prototype = None\<rparr>"
      "map (\<lambda>p. (fst p, Some (snd p)))
         (own_properties (own (one_entry_each (eligible Factory example_options)))) @
       [(''daoFactory'',
         attached (cloneDao_options example_options)
           (bag (cloneDao_options example_options) ''DaoFactory''))] =
        [(''bankExtFactory'', Some (example_table ! 0)), (''daoFactory'', None)]"
      "one_entry_each (generated_extensions example_options) =
        \<lparr>own = [(''bankExt'', example_table ! 1)], prototype = None\<rparr>"
      "\<not> truthy (bag example_options ''deployTestTokens'')"
      "\<not> truthy (bag example_options ''offchainVoting'')"
    by code_simp+
  note entries =
    deployDao_entries_per_descriptor
      [of example_imported example_options example_chain example_result
         "snd (deployDao example_imported example_options example_chain)",
       THEN mp, OF conjI [OF run wf]]
  from entries links
  have c: "shape (utilContracts example_result) =
        \<lparr>own = [(''multicall'', example_table ! 3)], prototype = None\<rparr>"
    "shape (testContracts example_result) = new_object"
    "shape (adapters example_result) =
        \<lparr>own = [(''voting'', example_table ! 2)], prototype = None\<rparr>"
    "map (\<lambda>p. (fst p, instance_configs (snd p))) (own (factories example_result)) =
        [(''bankExtFactory'', Some (example_table ! 0)), (''daoFactory'', None)]"
    "shape (extensions example_result) =
        \<lparr>own = [(''bankExt'', example_table ! 1)], prototype = None\<rparr>"
    by (simp_all add: vals)
  show "\<exists>r w'.
      deployDao example_imported example_options example_chain = (Inr r, w') \<and>
      well_formed example_imported example_options \<and>
      consistent_links example_options \<and>
      shape (utilContracts r) =
        \<lparr>own = [(''multicall'', example_table ! 3)], prototype = None\<rparr> \<and>
      shape (testContracts r) = new_object \<and>
      shape (adapters r) = \<lparr>own = [(''voting'', example_table ! 2)], prototype = None\<rparr> \<and>
      map (\<lambda>p. (fst p, instance_configs (snd p))) (own (factories r)) =
        [(''bankExtFactory'', Some (example_table ! 0)), (''daoFactory'', None)] \<and>
      shape (extensions r) = \<lparr>own = [(''bankExt'', example_table ! 1)], prototype = None\<rparr>"
    by (intro exI conjI) (rule run wf links c)+
next
  have "(case fst (deployDao example_imported example_full_options example_chain) of
           Inl e \<Rightarrow> False
         | Inr r \<Rightarrow>
             (case offchainVoting (votingHelpers r) of
                None \<Rightarrow> False
              | Some voting \<Rightarrow> configs voting = example_table ! 5))"
    by code_simp
  then obtain r voting where
    r: "fst (deployDao example_imported example_full_options example_chain) = Inr r"
    and v: "offchainVoting (votingHelpers r) = Some voting" "configs voting = example_table ! 5"
    by (cases "fst (deployDao example_imported example_full_options example_chain)")
      (auto split: option.splits)
  note run = run_collapse [OF r]
  have wf: "well_formed example_imported example_full_options"
    by code_simp
  have vals: "one_entry_each (eligible Test example_full_options) =
        \<lparr>own = [(''testToken1'', example_table ! 4)], prototype = None\<rparr>"
      "assign (config_alias (example_table ! 5)) (example_table ! 5)
         (one_entry_each (eligible Adapter example_full_options)) =
        \<lparr>own = [(''voting'', example_table ! 5)], prototype = None\<rparr>"
      "truthy (bag example_full_options ''deployTestTokens'')"
    by code_simp+
  note entries =
    deployDao_entries_per_descriptor
      [of example_imported example_full_options example_chain r
         "snd (deployDao example_imported example_full_options example_chain)",
       THEN mp, OF conjI [OF run wf]]
  from entries
  have c: "shape (testContracts r) =
        \<lparr>own = [(''testToken1'', example_table ! 4)], prototype = None\<rparr>"
    "shape (adapters r) = \<lparr>own = [(''voting'', example_table ! 5)], prototype = None\<rparr>"
    by (simp_all add: vals v)
  show "\<exists>r w'.
      deployDao example_imported example_full_options example_chain = (Inr r, w') \<and>
      well_formed example_imported example_full_options \<and>
      shape (testContracts r) =
        \<lparr>own = [(''testToken1'', example_table ! 4)], prototype = None\<rparr> \<and>
      shape (adapters r) = \<lparr>own = [(''voting'', example_table ! 5)], prototype = None\<rparr>"
    by (intro exI conjI) (rule run wf c)+
qed

section \<open>The calls of each phase\<close>

























lemma no_Deploy: "list_all (\<lambda>c. P c \<and> \<not> is_Deploy c) cs \<Longrightarrow> filter is_Deploy cs = []"
  by (induction cs) auto















section \<open>The place of access configuration in the deployment\<close>





end
